theory Spec2Isabelle
  imports Complex_Main
begin

section \<open>Data model of the transaction tester\<close>

text \<open>
  The script \<^verbatim>\<open>index.js\<close> reads a line, builds a batch of transactions of one kind
  for one sender and posts the batch. The model follows the function \<^verbatim>\<open>main\<close>
  statement by statement. The mutable globals \<^verbatim>\<open>nonces\<close> and \<^verbatim>\<open>config\<close> are
  passed in and returned; everything the script asks of the outside (the ledger API,
  \<^verbatim>\<open>Math.random\<close>, the crypto library) is a field of the record \<open>env\<close>.
\<close>

subsection \<open>JavaScript values\<close>

text \<open>
  A nonce read from the configuration or from the API is \<^verbatim>\<open>undefined\<close>, a number or a
  decimal string. \<open>truthy_num\<close> is \<open>Some n\<close> exactly when the value is truthy in
  JavaScript, with \<open>n\<close> the number \<^verbatim>\<open>Utils.BigNumber.make\<close> reads from it: the number
  \<open>0\<close> is falsy, the string \<^verbatim>\<open>"0"\<close> is not.
\<close>

datatype jsval = Undefined | Num int | NumStr int

fun truthy_num :: "jsval \<Rightarrow> int option" where
  "truthy_num Undefined = None"
| "truthy_num (Num n) = (if n = 0 then None else Some n)"
| "truthy_num (NumStr n) = Some n"

text \<open>A string-valued setting: \<^verbatim>\<open>undefined\<close> and the empty string are falsy.\<close>

fun truthy :: "string option \<Rightarrow> bool" where
  "truthy None = False"
| "truthy (Some s) = (s \<noteq> [])"

text \<open>\<^verbatim>\<open>a || b\<close> on strings, where \<open>b\<close> is a string.\<close>

definition or_str :: "string option \<Rightarrow> string \<Rightarrow> string" where
  "or_str a b = (case a of None \<Rightarrow> b | Some s \<Rightarrow> if s = [] then b else s)"

text \<open>
  A number after \<^verbatim>\<open>+type\<close> or in the comparison \<^verbatim>\<open>i < quantity\<close>: \<open>NaN\<close>, or a
  finite value. (The quantity \<^verbatim>\<open>Infinity\<close>, on which the loop of \<^verbatim>\<open>main\<close> has no
  bound, is outside the model.)
\<close>

datatype jsnum = NaN | Finite rat

subsection \<open>Configuration, wallets, drafts\<close>

text \<open>The object \<^verbatim>\<open>config\<close> (lines 62-151), nested fields joined by an underscore.\<close>

record config =
  cfg_verbose :: bool
  cfg_peer :: "string option"
  cfg_ecdsa :: bool
  cfg_passphrase :: "string option"
  cfg_coldrun :: bool
  cfg_recipientId :: "string option"
  cfg_startNonce :: jsval
  cfg_expiration :: "int option"
  cfg_amount :: string
  cfg_fee :: "string option"
  cfg_vendorField_value :: "string option"
  cfg_vendorField_random :: bool
  cfg_secondPassphrase :: "string option"
  cfg_delegateName :: "string option"
  cfg_vote :: "string option"
  cfg_unvote :: "string option"
  cfg_multiSignature_enabled :: bool
  cfg_multiSignature_asset_participants :: "string list"
  cfg_multiSignature_asset_min :: int
  cfg_multiSignature_passphrases :: "(nat \<times> string) list"
  cfg_ipfs :: string
  cfg_multiPayments :: "(string \<times> string) list option"
  cfg_htlc_lock_secretHash :: string
  cfg_htlc_lock_expiration_type :: int
  cfg_htlc_lock_expiration_value :: int
  cfg_htlc_claim_lockTransactionId :: "string option"
  cfg_htlc_claim_unlockSecret :: string
  cfg_htlc_refund_lockTransactionId :: "string option"

text \<open>A wallet as the API returns it; the cold wallet \<^verbatim>\<open>{}\<close> has no field set.\<close>

record wallet =
  w_publicKey :: "string option"
  w_nonce :: jsval
  w_vote :: "string option"
  w_secondPublicKey :: "string option"

definition cold_wallet :: wallet where
  "cold_wallet = \<lparr>w_publicKey = None, w_nonce = Undefined, w_vote = None,
     w_secondPublicKey = None\<rparr>"

text \<open>The fixture table \<^verbatim>\<open>testWallets\<close> (lines 550-1051; commented entries left out).\<close>

record testWallet =
  passphrase :: string
  address :: string
  publicKey :: string

definition testWallets :: "testWallet list" where
  "testWallets = [
    \<lparr>passphrase = ''2.6-wallet1'', address = ''DHKxXag9PjfjHBbPg3HQS5WCaQZdgDf6yi'',
      publicKey = ''02ca35b12058437774b47b0fde00a80c680855403330ce41bdefef6e504661f7ed''\<rparr>,
    \<lparr>passphrase = ''2.6-wallet2'', address = ''DBzGiUk8UVjB2dKCfGRixknB7Ki3Zhqthp'',
      publicKey = ''022668b4d0135cf1d221f1bdf8b6a3a3027bb6adedce32a737553291481e64e490''\<rparr>,
    \<lparr>passphrase = ''2.6-wallet5'', address = ''DQhzMRvVoCYCiZH2iSyuqCTcayz7z4XTKx'',
      publicKey = ''03a23637f079abde0deb5860daa4d26717855af14c6dded8bc401bda4465f4b747''\<rparr>,
    \<lparr>passphrase = ''2.6-wallet6'', address = ''DMSD6fFT1Xcxh4ErYExr5MtGnEuDcYu22m'',
      publicKey = ''0223b47710716023b45d37a2e45d6cafcabcb0541f4c9d57f946f1fa5630c2d026''\<rparr>,
    \<lparr>passphrase = ''2.6-wallet10'', address = ''DEHyKHdtzHqTghfpwaBcvTzLpgPP5AAUgE'',
      publicKey = ''02e7e9b33d19e5aa7ad092e8cdb5c973b44e2c761840c64a1abbe5571bb317d464''\<rparr>,
    \<lparr>passphrase = ''2.6-wallet11'', address = ''DBgA92a616rwVi9GsgYUwBq9Y7dgvZiC41'',
      publicKey = ''028b84f92ec7ec7a019973c9183403304ae9564787b66c242fa899c299617812af''\<rparr>,
    \<lparr>passphrase = ''2.6-wallet13'', address = ''D6JpPhN7BehrhNy7AbSQ2u9mkSZb1k7Ens'',
      publicKey = ''03c2b313282db91aad627c4a52d47bec99eb7c6e637399bb213c8aff652f9b7494''\<rparr>,
    \<lparr>passphrase = ''2.6-wallet14'', address = ''D9sdJ42YtJpXeL7Fa1cTLiciW7FpGYqms4'',
      publicKey = ''03215cb65a51897465c7ee5da007a4506b8451b004749dfe28d4debaa17f6423ea''\<rparr>,
    \<lparr>passphrase = ''2.6-wallet18'', address = ''DAwN6Pp4ErGf69EypErrbtuWFfEMtuSzmE'',
      publicKey = ''02d9bc80a3e40742ba116ebfaeaa7d792ccdfefa3dd24762b3d02a0e3e4e67af6d''\<rparr>,
    \<lparr>passphrase = ''2.6-wallet19'', address = ''DQ6sE3jE9rTFC13e2ndooRdy5YCYinLbPm'',
      publicKey = ''033b93fed9f0f6b84ccb23389d24b564b13d3ad2bb0b9ab7938d4700fb3a80ce03''\<rparr>,
    \<lparr>passphrase = ''2.6-wallet21'', address = ''D6qzeJEGG7rEBem5bNCCZqHtPCBtzsUZpP'',
      publicKey = ''02ecd3dcdd17f36ba7ba0b4ff836b03fff2300f7e324431de39503bf1ef804989a''\<rparr>,
    \<lparr>passphrase = ''2.6-wallet22'', address = ''DNVhLKTPh4LnqhcnkogNS8iSxmsnFG17tC'',
      publicKey = ''02db4da057fe2c0ba1b934fbd4c4415ef54c5dad859cc90fe95e9a875fde8d319f''\<rparr>,
    \<lparr>passphrase = ''2.6-wallet25'', address = ''D7XtDDKh2VrRtz5rtbBicfgSEoEQzEZiNx'',
      publicKey = ''03be3feac3dd670643b5a6ac013f8a3ca37cfc7c8efe3d93dd532c97b6d203300a''\<rparr>,
    \<lparr>passphrase = ''2.6-wallet26'', address = ''D9gQjhu2tDUstXfrbK85zHi23VtAk72qsS'',
      publicKey = ''020c2f9c124dacb9bfd6b9373e35c1c07aab8c6ecd50fa3b2946c79a79a1838687''\<rparr>,
    \<lparr>passphrase = ''2.6-wallet27'', address = ''DKhfkyY4RZyxR7CFjQAeNtGKXAaVEBa9HK'',
      publicKey = ''025921ff2ca02733ee9760ab7ad7b1db628adaee36317db5a0fba9da876c001298''\<rparr>,
    \<lparr>passphrase = ''2.6-wallet30'', address = ''D5taz6B4xDk1LD3jV4fYrUhaKC8DnTtziW'',
      publicKey = ''0352ff2cbd609fdcfc032c18c6a667009044fdb3ed279ceca2092638ac8bd6d06c''\<rparr>,
    \<lparr>passphrase = ''2.6-wallet31'', address = ''DDb3EXY3refv2f5ymMME3hp2DXFqMPzGah'',
      publicKey = ''021d83e48f132a94dba93b216ae7a2b35965bf02818246393164bfee6c36f3f56b''\<rparr>,
    \<lparr>passphrase = ''2.6-wallet32'', address = ''D5HydybffvfuwdbBKQ1dnhiXzNnWq6CgQz'',
      publicKey = ''03b3a212f8eff66c6bfda38090e75a9a82015438048a758b3a7c6d7dc050551455''\<rparr>,
    \<lparr>passphrase = ''2.6-wallet33'', address = ''D9DMKvx8fDyWyAP1EUGs5McBwwv3y5E1Yn'',
      publicKey = ''02ce5dda5b417698c998af763176a8255b507b48929826074e56e60d30a16a622d''\<rparr>,
    \<lparr>passphrase = ''2.6-wallet35'', address = ''DJAmJiuLQGnzXWmH7KvosVLks7hhfxQ8np'',
      publicKey = ''021085fef11deb2a3c3a532f340422f22944dbfa751d22ea62fd8d3801f352c6fd''\<rparr>,
    \<lparr>passphrase = ''2.6-wallet36'', address = ''D752ZwkQZKm5gYYMUZV2tKFFZZaD35MtRa'',
      publicKey = ''03395ce74f7d696edee6e34bc68b7c41348f558ee99766389adcf93e6291d8c37b''\<rparr>,
    \<lparr>passphrase = ''2.6-wallet38'', address = ''D9yDJNK4xHP9Gx27s187Z5XHcNF5YFA94h'',
      publicKey = ''02ff1f60dd2800e1941ae51ff6fb5244bf295bd65eec07c0b82c1ac887b14dcc64''\<rparr>,
    \<lparr>passphrase = ''2.6-wallet39'', address = ''DJuZC2smL8j86bUNrZiNceAubad3zs3drS'',
      publicKey = ''0259d03d5c09ac98fc3fe9731ed007cd36e3fd88dfaf1f8cbbcb5cade349ba51ee''\<rparr>,
    \<lparr>passphrase = ''2.6-wallet43'', address = ''DFmg9q2KqGyretLazvRjWdynJAZbPkZPG2'',
      publicKey = ''0248b2103dc49a8cb78931037fd9e7bafb0cff52c4c106bbc2732b93a9cadbd03a''\<rparr>,
    \<lparr>passphrase = ''2.6-wallet44'', address = ''DMnY8QWLAmsb4wNEjRVvtQsNWF4SbXntxM'',
      publicKey = ''03b88068bce125a3cbe86607d64c138c3c3ef79bf4c1589e7604a3a9bf6f3d5370''\<rparr>,
    \<lparr>passphrase = ''2.6-wallet45'', address = ''DBMn94FxVB36nXgzbmtmfu6jVEGwwHNyNA'',
      publicKey = ''03630de470d97f0c99b60cfc0990b756fb26a7201005ba83b98b1829a0b9627d7a''\<rparr>,
    \<lparr>passphrase = ''2.6-wallet46'', address = ''DUD3r46LtArk4msu6jFrwn1hjxbZoXzX9t'',
      publicKey = ''035950433667d3868c5778de98e41a47b0358afc8f853c87e1ce928315522325cc''\<rparr>,
    \<lparr>passphrase = ''2.6-wallet47'', address = ''DFUNVTBd5zFexBaHkymr4UJqsHeXhPLKUF'',
      publicKey = ''030a5e6f4098883281d9c0d7a7c8eaf0402ed3ab5ea763eef11a197f484aa2b160''\<rparr>,
    \<lparr>passphrase = ''2.6-wallet49'', address = ''D8LiYnmH4DLDyxCLTV7RrqxtCA21pfGkb9'',
      publicKey = ''0387873485f1af537fed3efc2341907aa8b0e9ae1c331bdff9f679277a0a23b7cb''\<rparr>,
    \<lparr>passphrase = ''2.6-wallet51'', address = ''D5iNaf5ZckhdZivPfy6vFvBLeBDJtvDoGo'',
      publicKey = ''0236effbd21efb0aa2b4b06b97b29eaba1532339b741f63be32551297b40ebe893''\<rparr>,
    \<lparr>passphrase = ''2.6-wallet52'', address = ''DPrdeuFDcfMujvYK6n18RBAWgh7hYeiDeZ'',
      publicKey = ''02fdc1278fdf07d5d9cce34f3ea1934e6ff7f38777f49bb600c994515c188e3ecb''\<rparr>,
    \<lparr>passphrase = ''2.6-wallet53'', address = ''D9oaC7bd2YaJYHDdGkUdyAnfpkBrFFKZHy'',
      publicKey = ''034f66df17f860b8b8b0e8172cc284a92b61d451a3388487b284990ccf7e3e933b''\<rparr>,
    \<lparr>passphrase = ''2.6-wallet54'', address = ''DUTUfseKR6qJRjqCuxeH3oRxMr6EFLUxRW'',
      publicKey = ''029b315516f740c9e81fb815c77581870587c1ee251e363c8ef1603d6f6d8fcad0''\<rparr>,
    \<lparr>passphrase = ''2.6-wallet56'', address = ''DE1BK8iL17PiBwo9TUCfkkm1vnUkobBwj8'',
      publicKey = ''028d0f82396ee16371f423042774bb66e07f1306b73d6e25e6c712342b0c54f91c''\<rparr>,
    \<lparr>passphrase = ''2.6-wallet57'', address = ''D7Ba6DnbpPJgqVnQNdN7baRsZs1DKvptMM'',
      publicKey = ''02e4e3d997b9c160e11bc4bf79f011cc7adee0a8d23a244c37c231dedf29f659c6''\<rparr>,
    \<lparr>passphrase = ''2.6-wallet58'', address = ''DUBcre2e5KMykYr6xK56T5BrwkKMZkUF8r'',
      publicKey = ''03b1a962a3a06237776efe6299b9ef95fb81cf5fd2a98a0ec951533df7839f36cc''\<rparr>,
    \<lparr>passphrase = ''2.6-wallet59'', address = ''DPeqoTgBbRhyuEJtMnhqhSAeK32ymMNvjd'',
      publicKey = ''028c430df44c120ed342e37da5ea8992eac6755c43fe6a6a870b02ae81a943ba75''\<rparr>,
    \<lparr>passphrase = ''2.6-wallet63'', address = ''DFLY9huetM6GMrt9EGp6sXDEiC7r3oSYHg'',
      publicKey = ''0318fcac6cd16617340ce11fb7f33c2fb9861dfff8dc5304a7a55b6672154b7cf1''\<rparr>,
    \<lparr>passphrase = ''2.6-wallet64'', address = ''DEszKKqdRipXiF7BDKS2Q4iJwwfzLdwADK'',
      publicKey = ''03a819a41b0f00e80f46ee369633a0fab779841ff44b530ba530169bb8c5b2e242''\<rparr>,
    \<lparr>passphrase = ''2.6-wallet65'', address = ''DF45FRKUYcyUGeZyyTF3sCYJ8VFNXymzhJ'',
      publicKey = ''0246812d42b455b806f8cda6ff3808471a9a362c709d89867b296fb67f29085188''\<rparr>,
    \<lparr>passphrase = ''2.6-wallet67'', address = ''DCqqT4x4on1dsbgUKRWkuZsdZaoohYK6NV'',
      publicKey = ''020611b40c71f84dfe6e41397d02c93512881bd577b6ec8379cdaefab1ab85e0f5''\<rparr>,
    \<lparr>passphrase = ''2.6-wallet70'', address = ''DF5ZYcQsmgDvH6cVQR87xvXapyTUFB1a5R'',
      publicKey = ''03ed92fb37629bf1c7f573e175e27c1a30e31b7e1814d0635845ce4b0d375b655e''\<rparr>,
    \<lparr>passphrase = ''2.6-wallet72'', address = ''DP6k5YTtaeNJUHZ72H6QtugFaHVB5vEBQe'',
      publicKey = ''03abaa80de87f0ce5d41c47374cc09e219f7d4138331c7d60db8ea925967cada5a''\<rparr>,
    \<lparr>passphrase = ''2.6-wallet76'', address = ''D75g1ztcaHi46eUFRnakRryqG7GV9xsgGC'',
      publicKey = ''036c613ec27de52db43f3278cc816b5decabdb24dd0dd1b5b297572474fcbd7079''\<rparr>,
    \<lparr>passphrase = ''2.6-wallet77'', address = ''DSkMiPrEx3YF6ijDjxhwCnbAbriC8sWKEW'',
      publicKey = ''03bff2fb4d7852040cb3510d0daf01464e84788027f6f21eea39e4cc782340dbba''\<rparr>,
    \<lparr>passphrase = ''2.6-wallet79'', address = ''DQZUzueTvUJb5tnhBCziPYaMnzaoui4F57'',
      publicKey = ''021beb69e7303005d4594912b90a7995bd07d24ec382e90584c7d4c8c93e97089a''\<rparr>,
    \<lparr>passphrase = ''2.6-wallet81'', address = ''DHSW3vi66L63xnzRt9PadwSVrb9bCKhgvJ'',
      publicKey = ''025da4ebd800f85e96e31590e162bf2d9f78ae9174655d6bdec201a99bd6580ce2''\<rparr>,
    \<lparr>passphrase = ''2.6-wallet82'', address = ''D6eAmMh6FFynorCSjHS1Qx75rXiN89soa7'',
      publicKey = ''02fa2d048e3beeeb6eb1a307f83e3192f8a244d13ef6dc144caa9677e560b7da67''\<rparr>,
    \<lparr>passphrase = ''2.6-wallet83'', address = ''DGPoaSg15fb6As8bPKBAQrK3nCDpgfYow8'',
      publicKey = ''029fa9f69b302ff49a252e07b4722de81b8105746543085832e9dca293bebe7aff''\<rparr>,
    \<lparr>passphrase = ''2.6-wallet84'', address = ''DKPmC4G1ZEwxb5hZro2sJwRWJ1pQixcK6N'',
      publicKey = ''0317d9ca2a86d583facbc3ab7a0705eafc89199055d46055fb01950c53bc4dfa21''\<rparr>,
    \<lparr>passphrase = ''2.6-wallet88'', address = ''DBBbtnKKDAW84bDjywEmQFLgwf36DxJHZJ'',
      publicKey = ''03c53de42449df160356b7382af168903153ac95491994ab6c278840cd00872c68''\<rparr>,
    \<lparr>passphrase = ''2.6-wallet89'', address = ''DA7GfDKG5zYFeiZ1C4FPJBeTajpYNvXxcC'',
      publicKey = ''0256ee467ae3129537189eb02f4d81d80e428aa5b2a53668f5ce2c6d3a9ca6ab2c''\<rparr>,
    \<lparr>passphrase = ''2.6-wallet90'', address = ''DPAsWQyuxYkiMRzhngKBPTpWb6WWqxdd1T'',
      publicKey = ''034496bb34624c8381391273c228681d982668086fcb994e8817fa1907db4ba2ff''\<rparr>,
    \<lparr>passphrase = ''2.6-wallet91'', address = ''DTv6qvhUK1jks58gAA5YFzShHf3YX9sJVo'',
      publicKey = ''02ec03ed1353c578a79dec8b20f56f253cc929c5b5a9550598592ab6fbccee1a7e''\<rparr>,
    \<lparr>passphrase = ''2.6-wallet92'', address = ''DDwTm5FbgvWugYekvjE1dzantAVKxtGbNo'',
      publicKey = ''025d655104eb6ed75d5fd1b400ba27dad48147a487dd532db12f11bfe5f2be38ca''\<rparr>,
    \<lparr>passphrase = ''2.6-wallet96'', address = ''DM1pVjbHA3Q4dezcwGBjmT54cLYqpx1NtZ'',
      publicKey = ''02a8ac3ca69a778e3da70ac63d408f202317de14bb83b8f75d218b32cea7c345e4''\<rparr>,
    \<lparr>passphrase = ''2.6-wallet97'', address = ''DFEMw6jihEKRJ9CT3k8Rj73PLKDGDyQLU1'',
      publicKey = ''020faf38e8b2b1ec22e8d5de02b9b7f8114ec5c555a8efd96631eb864c1485b778''\<rparr>,
    \<lparr>passphrase = ''2.6-wallet99'', address = ''DMca1DGMxj8w59dWYmji1YC1xLP7AmL6rA'',
      publicKey = ''03959b58145d38e33c9c9eafd0edbde953bdb5afdd45ad4f8bbff7f42c03f1fa89''\<rparr>
  ]"

text \<open>Transaction kinds (\<^verbatim>\<open>Enums.TransactionType\<close>, lines 37-51) and expiration kinds.\<close>

definition Transfer :: int where "Transfer = 0"
definition SecondSignature :: int where "SecondSignature = 1"
definition DelegateRegistration :: int where "DelegateRegistration = 2"
definition Vote :: int where "Vote = 3"
definition MultiSignature :: int where "MultiSignature = 4"
definition Ipfs :: int where "Ipfs = 5"
definition MultiPayment :: int where "MultiPayment = 6"
definition DelegateResignation :: int where "DelegateResignation = 7"
definition HtlcLock :: int where "HtlcLock = 8"
definition HtlcClaim :: int where "HtlcClaim = 9"
definition HtlcRefund :: int where "HtlcRefund = 10"

definition EpochTimestamp :: int where "EpochTimestamp = 1"
definition BlockHeight :: int where "BlockHeight = 2"

text \<open>\<^verbatim>\<open>MagistrateCrypto.Enums.EntityAction\<close>.\<close>

datatype entityAction = Register | Update | Resign

text \<open>
  The entity asset of lines 318-332. A field that the script never assigns is \<open>None\<close>
  (the property is absent from the object).
\<close>

record entityAsset =
  ea_type :: jsnum
  ea_subType :: jsnum
  ea_action :: "entityAction option"
  ea_registrationId :: "string option option"
  ea_data_name :: "string option option"
  ea_data_ipfsData :: "string option option"

datatype asset =
    NoAsset
  | SignatureAsset string
  | UsernameAsset string
  | VotesAsset "string list"
  | MultiSignatureAsset "string list" "int option"
  | IpfsAsset string
  | PaymentsAsset "(string \<times> string) list"
  | HtlcLockAsset string int int
  | HtlcClaimAsset string string
  | HtlcRefundAsset string
  | EntityAsset entityAsset

text \<open>
  The calls that sign a draft, in the order the script makes them:
  \<^verbatim>\<open>transaction.multiSign(passphrase, index)\<close>, \<^verbatim>\<open>sign(transaction, passphrase)\<close> and
  \<^verbatim>\<open>secondSign(transaction, passphrase)\<close>; the flag is \<^verbatim>\<open>config.ecdsa\<close>, which
  selects the signature scheme in lines 400-424.
\<close>

datatype signing = MultiSign string nat | Sign bool string | SecondSign bool string

text \<open>
  The builder's data, and the payload that \<^verbatim>\<open>build()\<close> and \<^verbatim>\<open>toJson()\<close> make of it
  (a copy, so a value of the same record). A setter of the crypto library stores its
  argument; where the library is known to throw or to drop a field, the model says
  so at the call (the payment limit, the length of the vendor field, signing and
  \<^verbatim>\<open>build()\<close>).
\<close>

record transaction =
  tx_type :: int
  tx_nonce :: int
  tx_senderPublicKey :: string
  tx_fee :: "string option"
  tx_recipientId :: "string option"
  tx_amount :: "string option"
  tx_expiration :: "int option"
  tx_asset :: asset
  tx_vendorField :: "string option"
  tx_signatures :: "signing list"


subsection \<open>JavaScript numbers\<close>

text \<open>
  \<^verbatim>\<open>Math.random()\<close> returns an IEEE-754 double, and the script multiplies and adds
  doubles before it takes \<^verbatim>\<open>Math.floor\<close>. A finite double is modelled by the rational
  it denotes; \<open>fl x\<close> rounds the exact result \<open>x\<close> to the nearest double, ties to the
  even significand (53 bits, least exponent \<open>-1022\<close>; results stay far below the
  overflow threshold here). \<open>floor_log2 x\<close> is the binary exponent of \<open>x > 0\<close>.
\<close>

definition rne :: "rat \<Rightarrow> int" where
  "rne y = (let f = \<lfloor>y\<rfloor>; d = y - of_int f in
     if d < 1 / 2 then f else if 1 / 2 < d then f + 1 else if even f then f else f + 1)"

function exp_up :: "rat \<Rightarrow> int" where
  "exp_up x = (if x < 2 then 0 else 1 + exp_up (x / 2))"
  by pat_completeness auto
termination
proof (relation "measure (\<lambda>x. nat \<lfloor>x\<rfloor>)")
  show "wf (measure (\<lambda>x::rat. nat \<lfloor>x\<rfloor>))" by simp
next
  fix x :: rat assume "\<not> x < 2"
  then have "\<lfloor>x / 2\<rfloor> < \<lfloor>x\<rfloor>" "0 < \<lfloor>x\<rfloor>" by linarith+
  then show "(x / 2, x) \<in> measure (\<lambda>x. nat \<lfloor>x\<rfloor>)" by simp
qed

function exp_down :: "rat \<Rightarrow> int" where
  "exp_down x = (if x \<le> 0 \<or> 1 \<le> x then 0 else exp_down (2 * x) - 1)"
  by pat_completeness auto
termination
proof (relation "measure (\<lambda>x. nat \<lfloor>1 / x\<rfloor>)")
  show "wf (measure (\<lambda>x::rat. nat \<lfloor>1 / x\<rfloor>))" by simp
next
  fix x :: rat assume "\<not> (x \<le> 0 \<or> 1 \<le> x)"
  then have x: "0 < x" "x < 1" by auto
  define y where "y = 1 / x"
  from x have "1 < y" by (simp add: y_def)
  then have pos: "1 \<le> \<lfloor>y\<rfloor>" by (simp add: le_floor_iff)
  have "y / 2 < of_int \<lfloor>y\<rfloor>" using pos floor_correct [of y] by linarith
  then have lt: "\<lfloor>y / 2\<rfloor> < \<lfloor>y\<rfloor>" by (simp add: floor_less_iff)
  have e: "1 / (2 * x) = y / 2" by (simp add: y_def)
  have "nat \<lfloor>1 / (2 * x)\<rfloor> < nat \<lfloor>y\<rfloor>" unfolding e using lt pos by linarith
  then show "(2 * x, x) \<in> measure (\<lambda>x. nat \<lfloor>1 / x\<rfloor>)" unfolding y_def by simp
qed

definition floor_log2 :: "rat \<Rightarrow> int" where
  "floor_log2 x = (if 1 \<le> x then exp_up x else exp_down x)"

definition pow2 :: "int \<Rightarrow> rat" where
  "pow2 e = (if 0 \<le> e then 2 ^ nat e else 1 / 2 ^ nat (- e))"

definition fl :: "rat \<Rightarrow> rat" where
  "fl x = (if x = 0 then 0
     else let u = pow2 (max (floor_log2 \<bar>x\<bar>) (- 1022) - 52)
          in of_int (rne (x / u)) * u)"

definition js_mul :: "rat \<Rightarrow> rat \<Rightarrow> rat" where "js_mul x y = fl (x * y)"
definition js_add :: "rat \<Rightarrow> rat \<Rightarrow> rat" where "js_add x y = fl (x + y)"


text \<open>The value is a double when rounding leaves it as it is.\<close>

definition is_double :: "rat \<Rightarrow> bool" where
  "is_double x = (fl x = x)"

text \<open>\<^verbatim>\<open>Math.floor(Math.random() * (128 - 64 + 1) + 64)\<close> (line 271).\<close>

definition payment_count :: "rat \<Rightarrow> int" where
  "payment_count r = \<lfloor>js_add (js_mul r (128 - 64 + 1)) 64\<rfloor>"

text \<open>\<^verbatim>\<open>testWallets[Math.floor(Math.random()*testWallets.length)]\<close> (lines 195-196).\<close>

definition random_wallet :: "rat \<Rightarrow> testWallet option" where
  "random_wallet r =
     (let k = \<lfloor>js_mul r (of_nat (length testWallets))\<rfloor>
      in if 0 \<le> k \<and> k < int (length testWallets) then Some (testWallets ! nat k) else None)"


section \<open>The outside world\<close>

text \<open>
  What one run of \<^verbatim>\<open>main\<close> reads from outside the script. The HTTP answers are
  \<open>None\<close> when the request throws. A field indexed by a \<open>nat\<close> is read in the loop
  iteration of that index. \<open>aip11\<close> is the milestone flag after
  \<^verbatim>\<open>configureCrypto\<close>; \<open>verify\<close> is \<^verbatim>\<open>instance.verify()\<close> of the crypto library;
  \<open>publicKey_fromPassphrase\<close> stands for \<^verbatim>\<open>Identities.PublicKey.fromPassphrase\<close> and
  for the public key of \<^verbatim>\<open>Identities.Keys.fromPassphrase\<close>. A value of
  \<^verbatim>\<open>Math.random()\<close> is a double in \<open>[0, 1)\<close>.

  The crypto library is not part of the script; what it does to a draft is taken from
  these fields:
  \<^item> \<open>multiPaymentLimit\<close>: \<^verbatim>\<open>addPayment\<close> throws once the draft holds that many
    payments;
  \<^item> \<open>maxVendorFieldLength\<close>: the setter \<^verbatim>\<open>vendorField\<close> throws on a value of more
    bytes;
  \<^item> \<open>library_builds\<close>: whether \<^verbatim>\<open>multiSign\<close>, \<^verbatim>\<open>sign\<close>, \<^verbatim>\<open>secondSign\<close> and
    \<^verbatim>\<open>build()\<close> (lines 353-380) go through on the signed draft; each of them
    serialises the draft and throws on one it cannot serialise or that fails the schema;
  \<^item> \<open>hasVendorField\<close>: the kinds whose serialised form has a vendor field;
    \<^verbatim>\<open>build()\<close> reads the draft back from its serialised form, so the payload of any
    other kind has none.
\<close>

record env =
  aip11 :: bool
  toNumber :: "string \<Rightarrow> jsnum"
  parseInt :: "string option \<Rightarrow> jsnum"
  random_sender :: rat
  random_recipient :: rat
  random_count :: "nat \<Rightarrow> rat"
  random_vendorField :: "nat \<Rightarrow> string"
  publicKey_fromPassphrase :: "string \<Rightarrow> string"
  address_fromPassphrase :: "string \<Rightarrow> string"
  address_fromPublicKey :: "string \<Rightarrow> string"
  publicKey_fromMultiSignatureAsset :: "int \<Rightarrow> string list \<Rightarrow> string"
  address_fromMultiSignatureAsset :: "int \<Rightarrow> string list \<Rightarrow> string"
  http_wallet :: "string \<Rightarrow> wallet option"
  http_transactions :: "string \<Rightarrow> int \<Rightarrow> string list option"
  http_status_timestamp :: "nat \<Rightarrow> int option"
  verify :: "transaction \<Rightarrow> bool"
  multiPaymentLimit :: nat
  maxVendorFieldLength :: nat
  library_builds :: "transaction \<Rightarrow> bool"
  hasVendorField :: "int \<Rightarrow> bool"

text \<open>Lines 426-436: a failed lookup is a cold wallet.\<close>

definition retrieveSenderWallet :: "env \<Rightarrow> string \<Rightarrow> wallet" where
  "retrieveSenderWallet e sender =
     (case http_wallet e sender of Some w \<Rightarrow> w | None \<Rightarrow> cold_wallet)"

text \<open>
  Lines 438-447: the ids of the transactions found, newest first. The failure value
  \<^verbatim>\<open>{}\<close> has no element \<open>0\<close> either, so it is the empty list here.
\<close>

definition retrieveTransaction :: "env \<Rightarrow> string \<Rightarrow> int \<Rightarrow> string list" where
  "retrieveTransaction e sender type =
     (case http_transactions e sender type of Some ids \<Rightarrow> ids | None \<Rightarrow> [])"

text \<open>Lines 449-458: a failed lookup is time \<open>0\<close>.\<close>

definition retrieveNetworktime :: "env \<Rightarrow> nat \<Rightarrow> int" where
  "retrieveNetworktime e i =
     (case http_status_timestamp e i of Some t \<Rightarrow> t | None \<Rightarrow> 0)"

text \<open>Lines 460-471: the pair (publicKey, address) of the composite account.\<close>

definition multiSignatureAddress :: "env \<Rightarrow> config \<Rightarrow> string \<times> string" where
  "multiSignatureAddress e c =
     (publicKey_fromMultiSignatureAsset e (cfg_multiSignature_asset_min c)
        (map (publicKey_fromPassphrase e) (cfg_multiSignature_asset_participants c)),
      address_fromMultiSignatureAsset e (cfg_multiSignature_asset_min c)
        (map (publicKey_fromPassphrase e) (cfg_multiSignature_asset_participants c)))"

section \<open>The function main\<close>

text \<open>
  The errors thrown by the script (unknown kind, unsupported version, the assertion of
  line 387, reading a property of \<^verbatim>\<open>undefined\<close>) and by the library (too many payments,
  too long a vendor field, a draft that cannot be signed or built).
\<close>

datatype error =
    UnknownType | Version2NotSupported | AssertionError | TypeError
  | MaximumPaymentCountExceeded | VendorFieldLengthExceeded | LibraryError

text \<open>The globals \<^verbatim>\<open>nonces\<close> (line 178) and \<^verbatim>\<open>config\<close>.\<close>

record state =
  st_nonces :: "string \<rightharpoonup> int"
  st_config :: config

text \<open>The constants of one run, fixed in lines 184-204 before the loop.\<close>

record run =
  r_type :: int
  r_splitInput :: "string list"
  r_senderSecret :: string
  r_senderPublicKey :: string
  r_recipientId :: string
  r_senderWallet :: wallet
  r_walletPublicKey :: string

text \<open>\<^verbatim>\<open>data.split(" ")\<close> and \<^verbatim>\<open>splitInput[k]\<close>.\<close>

fun split_space :: "string \<Rightarrow> string list" where
  "split_space [] = [[]]"
| "split_space (c # cs) =
     (if c = CHR '' '' then [] # split_space cs
      else (case split_space cs of [] \<Rightarrow> [[c]] | w # ws \<Rightarrow> (c # w) # ws))"

definition item :: "'a list \<Rightarrow> nat \<Rightarrow> 'a option" where
  "item xs k = (if k < length xs then Some (xs ! k) else None)"

text \<open>
  The table \<^verbatim>\<open>builders\<close> (lines 511-529) has the keys \<open>0\<close> to \<open>11\<close>; any other
  number, and \<open>NaN\<close>, finds nothing.
\<close>

definition builders :: "jsnum \<Rightarrow> int option" where
  "builders type =
     (case type of
        NaN \<Rightarrow> None
      | Finite q \<Rightarrow> if q = of_int \<lfloor>q\<rfloor> \<and> 0 \<le> q \<and> q \<le> 11 then Some \<lfloor>q\<rfloor> else None)"

text \<open>The number of indices \<open>i = 0, 1, ...\<close> with \<^verbatim>\<open>i < quantity\<close>.\<close>

definition iterations :: "jsnum \<Rightarrow> nat" where
  "iterations quantity = (case quantity of NaN \<Rightarrow> 0 | Finite q \<Rightarrow> nat \<lceil>q\<rceil>)"

subsection \<open>Nonce (lines 209-220)\<close>

text \<open>
  \<open>cached\<close> is \<^verbatim>\<open>nonces[senderKeys.publicKey]\<close>; a stored nonce is a BigNumber object
  and so always truthy.
\<close>

definition senderNonce :: "env \<Rightarrow> config \<Rightarrow> wallet \<Rightarrow> jsval" where
  "senderNonce e c senderWallet =
     (if cfg_multiSignature_enabled c
      then w_nonce (retrieveSenderWallet e (snd (multiSignatureAddress e c)))
      else w_nonce senderWallet)"

text \<open>\<^verbatim>\<open>Utils.BigNumber.make(config.startNonce || senderNonce || 0)\<close>.\<close>

definition start_value :: "jsval \<Rightarrow> jsval \<Rightarrow> int" where
  "start_value startNonce seed =
     (case truthy_num startNonce of
        Some n \<Rightarrow> n
      | None \<Rightarrow> (case truthy_num seed of Some n \<Rightarrow> n | None \<Rightarrow> 0))"

definition next_nonce :: "env \<Rightarrow> config \<Rightarrow> wallet \<Rightarrow> int option \<Rightarrow> int" where
  "next_nonce e c senderWallet cached =
     (case cached of
        None \<Rightarrow> start_value (cfg_startNonce c) (senderNonce e c senderWallet) + 1
      | Some nonce \<Rightarrow> nonce + 1)"

text \<open>The nonce that the iteration run in state \<open>s\<close> issues.\<close>

definition issued_nonce :: "env \<Rightarrow> run \<Rightarrow> state \<Rightarrow> int" where
  "issued_nonce e r s =
     next_nonce e (st_config s) (r_senderWallet r) (st_nonces s (r_senderPublicKey r))"

definition new_transaction :: "int \<Rightarrow> int \<Rightarrow> string \<Rightarrow> transaction" where
  "new_transaction type nonce pk =
     \<lparr>tx_type = type, tx_nonce = nonce, tx_senderPublicKey = pk, tx_fee = None,
      tx_recipientId = None, tx_amount = None, tx_expiration = None, tx_asset = NoAsset,
      tx_vendorField = None, tx_signatures = []\<rparr>"

subsection \<open>Payload by kind (lines 230-336)\<close>

text \<open>Lines 268-280: the payments of a MultiPayment, as (recipientId, amount).\<close>

definition synthesized_payments :: "int \<Rightarrow> (string \<times> string) list" where
  "synthesized_payments count =
     map (\<lambda>i. (address (testWallets ! (i mod length testWallets)), ''1'')) [0..<nat count]"

definition payments_of :: "env \<Rightarrow> config \<Rightarrow> nat \<Rightarrow> (string \<times> string) list" where
  "payments_of e c i =
     (case cfg_multiPayments c of
        None \<Rightarrow> synthesized_payments (payment_count (random_count e i))
      | Some ps \<Rightarrow> if length ps = 0 then synthesized_payments (payment_count (random_count e i))
                  else ps)"

text \<open>Lines 292-297: the expiration of an HTLC lock, written back into \<^verbatim>\<open>config\<close>.\<close>

definition resolve_expiration :: "env \<Rightarrow> nat \<Rightarrow> config \<Rightarrow> config" where
  "resolve_expiration e i c =
     (if cfg_htlc_lock_expiration_type c = EpochTimestamp
      then (let networktime = retrieveNetworktime e i
            in if cfg_htlc_lock_expiration_value c < networktime
               then c\<lparr>cfg_htlc_lock_expiration_value :=
                        cfg_htlc_lock_expiration_value c + networktime\<rparr>
               else c)
      else c)"

text \<open>
  Lines 303 and 309: the configured lock id, else the id of the first transaction
  found; reading \<^verbatim>\<open>.id\<close> of a missing first element throws a TypeError.
\<close>

definition lock_id :: "env \<Rightarrow> run \<Rightarrow> string option \<Rightarrow> error + string" where
  "lock_id e r configured =
     (if truthy configured then Inr (or_str configured [])
      else (case retrieveTransaction e (r_walletPublicKey r) 8 of
              [] \<Rightarrow> Inl TypeError
            | x # _ \<Rightarrow> Inr x))"

text \<open>Lines 313-332.\<close>

definition mapAction :: "string option \<Rightarrow> entityAction option" where
  "mapAction key =
     (if key = Some ''register'' then Some Register
      else if key = Some ''update'' then Some Update
      else if key = Some ''resign'' then Some Resign
      else None)"

definition entity_asset :: "env \<Rightarrow> string list \<Rightarrow> entityAsset" where
  "entity_asset e splitInput =
     (let entityAsset =
            \<lparr>ea_type = parseInt e (item splitInput 2),
             ea_subType = parseInt e (item splitInput 3),
             ea_action = mapAction (item splitInput 4),
             ea_registrationId = None, ea_data_name = None, ea_data_ipfsData = None\<rparr>
      in if ea_action entityAsset = Some Register
         then entityAsset\<lparr>ea_data_name := Some (item splitInput 5),
                           ea_data_ipfsData := Some (item splitInput 6)\<rparr>
         else if ea_action entityAsset = Some Update
         then entityAsset\<lparr>ea_registrationId := Some (item splitInput 5),
                           ea_data_ipfsData := Some (item splitInput 6)\<rparr>
         else if ea_action entityAsset = Some Resign
         then entityAsset\<lparr>ea_registrationId := Some (item splitInput 5)\<rparr>
         else entityAsset)"

text \<open>
  The chain of lines 230-336. Only the HTLC lock changes \<^verbatim>\<open>config\<close>; the result
  carries the configuration as the branch leaves it. In the loop of lines 282-284 the
  call of \<^verbatim>\<open>addPayment\<close> that would exceed the library's limit throws.
\<close>

definition populate ::
  "env \<Rightarrow> config \<Rightarrow> run \<Rightarrow> nat \<Rightarrow> transaction \<Rightarrow> config \<times> (error + transaction)" where
  "populate e c r i t =
     (let type = r_type r in
      if type = Transfer then
        (c, Inr (t\<lparr>tx_recipientId := Some (r_recipientId r),
                    tx_amount := Some (cfg_amount c),
                    tx_expiration := Some (case cfg_expiration c of None \<Rightarrow> 0 | Some h \<Rightarrow> h)\<rparr>))
      else if type = SecondSignature then
        (c, Inr (t\<lparr>tx_asset :=
                      SignatureAsset (or_str (cfg_secondPassphrase c) ''second passphrase'')\<rparr>))
      else if type = DelegateRegistration then
        (c, Inr (t\<lparr>tx_asset :=
                      UsernameAsset (or_str (cfg_delegateName c)
                        (''delegate.'' @ take 10 (r_senderPublicKey r)))\<rparr>))
      else if type = Vote then
        (c, Inr (t\<lparr>tx_asset := VotesAsset
                      [if truthy (cfg_vote c) then ''+'' @ or_str (cfg_vote c) []
                       else if truthy (cfg_unvote c) then ''-'' @ or_str (cfg_unvote c) []
                       else if truthy (w_vote (r_senderWallet r))
                       then ''-'' @ or_str (w_vote (r_senderWallet r)) []
                       else ''+'' @ r_senderPublicKey r]\<rparr>))
      else if type = MultiSignature \<and> aip11 e then
        (c, Inr (t\<lparr>tx_asset := MultiSignatureAsset
                      (map (publicKey_fromPassphrase e) (cfg_multiSignature_asset_participants c))
                      (Some (cfg_multiSignature_asset_min c))\<rparr>))
      else if type = Ipfs \<and> aip11 e then
        (c, Inr (t\<lparr>tx_asset := IpfsAsset (cfg_ipfs c)\<rparr>))
      else if type = MultiPayment \<and> aip11 e then
        (let payments = payments_of e c i
         in if multiPaymentLimit e < length payments
            then (c, Inl MaximumPaymentCountExceeded)
            else (c, Inr (t\<lparr>tx_asset := PaymentsAsset payments\<rparr>)))
      else if type = DelegateResignation \<and> aip11 e then
        (c, Inr t)
      else if type = HtlcLock \<and> aip11 e then
        (let c' = resolve_expiration e i c
         in (c', Inr (t\<lparr>tx_recipientId := Some (r_recipientId r),
                         tx_amount := Some (cfg_amount c),
                         tx_asset := HtlcLockAsset (cfg_htlc_lock_secretHash c')
                           (cfg_htlc_lock_expiration_type c')
                           (cfg_htlc_lock_expiration_value c')\<rparr>)))
      else if type = HtlcClaim \<and> aip11 e then
        (case lock_id e r (cfg_htlc_claim_lockTransactionId c) of
           Inl err \<Rightarrow> (c, Inl err)
         | Inr lockTransactionId \<Rightarrow>
             (c, Inr (t\<lparr>tx_asset :=
                           HtlcClaimAsset lockTransactionId (cfg_htlc_claim_unlockSecret c)\<rparr>)))
      else if type = HtlcRefund \<and> aip11 e then
        (case lock_id e r (cfg_htlc_refund_lockTransactionId c) of
           Inl err \<Rightarrow> (c, Inl err)
         | Inr lockTransactionId \<Rightarrow>
             (c, Inr (t\<lparr>tx_asset := HtlcRefundAsset lockTransactionId\<rparr>)))
      else if type = 11 \<and> aip11 e then
        (c, Inr (t\<lparr>tx_asset := EntityAsset (entity_asset e (r_splitInput r))\<rparr>))
      else (c, Inl Version2NotSupported))"


subsection \<open>Vendor field, signatures, verification (lines 338-388)\<close>

text \<open>Lines 338-341: the value of the local variable \<^verbatim>\<open>vendorField\<close>.\<close>

definition vendor_field :: "env \<Rightarrow> config \<Rightarrow> int \<Rightarrow> nat \<Rightarrow> string option" where
  "vendor_field e c type i =
     (if \<not> truthy (cfg_vendorField_value c) \<and> cfg_vendorField_random c
         \<and> (type = 0 \<or> type = 6 \<or> type = 8)
      then Some (random_vendorField e i)
      else cfg_vendorField_value c)"

text \<open>Lines 343-345; the setter throws on a value longer than the library allows.\<close>

definition attach_vendorField ::
  "env \<Rightarrow> config \<Rightarrow> int \<Rightarrow> nat \<Rightarrow> transaction \<Rightarrow> error + transaction" where
  "attach_vendorField e c type i t =
     (let vendorField = vendor_field e c type i
      in if truthy vendorField
         then (if maxVendorFieldLength e < length (or_str vendorField [])
               then Inl VendorFieldLengthExceeded
               else Inr (t\<lparr>tx_vendorField := vendorField\<rparr>))
         else Inr t)"

text \<open>Lines 347-351.\<close>

definition multisig_sender :: "env \<Rightarrow> config \<Rightarrow> int \<Rightarrow> transaction \<Rightarrow> transaction" where
  "multisig_sender e c type t =
     (if cfg_multiSignature_enabled c \<and> type \<noteq> 4
      then t\<lparr>tx_senderPublicKey := fst (multiSignatureAddress e c)\<rparr>
      else t)"

text \<open>Lines 353-368.\<close>

definition multi_sign :: "config \<Rightarrow> run \<Rightarrow> transaction \<Rightarrow> transaction" where
  "multi_sign c r t =
     (if cfg_multiSignature_enabled c \<or> r_type r = 4 then
        (if r_type r = 4 then
           t\<lparr>tx_senderPublicKey := r_walletPublicKey r,
             tx_signatures := tx_signatures t @
               map (\<lambda>(i, participant). MultiSign participant i)
                 (enumerate 0 (cfg_multiSignature_asset_participants c))\<rparr>
         else
           t\<lparr>tx_signatures := tx_signatures t @
               map (\<lambda>(index, passphrase). MultiSign passphrase index)
                 (cfg_multiSignature_passphrases c)\<rparr>)
      else t)"

text \<open>
  Lines 370-378. The calls are recorded here; whether the library carries them out on
  this draft is asked once, in \<open>build\<close> below.
\<close>

definition sender_sign :: "config \<Rightarrow> run \<Rightarrow> transaction \<Rightarrow> transaction" where
  "sender_sign c r t =
     (if \<not> cfg_multiSignature_enabled c \<or> r_type r = 4 then
        (let t1 = t\<lparr>tx_signatures := tx_signatures t @ [Sign (cfg_ecdsa c) (r_senderSecret r)]\<rparr>
         in if truthy (cfg_secondPassphrase c)
            then t1\<lparr>tx_signatures := tx_signatures t1 @
                      [SecondSign (cfg_ecdsa c) (or_str (cfg_secondPassphrase c) [])]\<rparr>
            else if truthy (w_secondPublicKey (r_senderWallet r))
            then t1\<lparr>tx_signatures := tx_signatures t1 @
                      [SecondSign (cfg_ecdsa c) ''second passphrase'']\<rparr>
            else t1)
      else t)"

text \<open>
  Lines 380-381, \<^verbatim>\<open>transaction.build().toJson()\<close>, together with the throws of the
  signing calls before them: an error when the library does not sign or build the
  draft, else the payload, which has the vendor field of the draft only for a kind that
  carries one.
\<close>

definition payload_of :: "env \<Rightarrow> transaction \<Rightarrow> transaction" where
  "payload_of e t = (if hasVendorField e (tx_type t) then t else t\<lparr>tx_vendorField := None\<rparr>)"

definition build :: "env \<Rightarrow> transaction \<Rightarrow> error + transaction" where
  "build e t = (if library_builds e t then Inr (payload_of e t) else Inl LibraryError)"

text \<open>
  Line 387, \<^verbatim>\<open>assert(instance.verify() || config.multiSignature.enabled)\<close>: the payload
  goes on to line 388, or the assertion throws.
\<close>

definition gate :: "env \<Rightarrow> config \<Rightarrow> transaction \<Rightarrow> error + transaction" where
  "gate e c t =
     (if verify e t \<or> cfg_multiSignature_enabled c then Inr t else Inl AssertionError)"

subsection \<open>One iteration, the loop, the run\<close>

text \<open>
  Lines 209-381 for index \<open>i\<close>: the state after them, and the payload built from the
  signed draft, or the error thrown on the way.
\<close>

definition sign_one :: "env \<Rightarrow> run \<Rightarrow> nat \<Rightarrow> state \<Rightarrow> state \<times> (error + transaction)" where
  "sign_one e r i s =
     (let c = st_config s;
          nonce = issued_nonce e r s;
          s1 = s\<lparr>st_nonces := (st_nonces s)(r_senderPublicKey r \<mapsto> nonce)\<rparr>;
          t0 = new_transaction (r_type r) nonce (r_senderPublicKey r);
          t1 = (if truthy (cfg_fee c) then t0\<lparr>tx_fee := cfg_fee c\<rparr> else t0)
      in case populate e c r i t1 of
           (c', Inl err) \<Rightarrow> (s1\<lparr>st_config := c'\<rparr>, Inl err)
         | (c', Inr t2) \<Rightarrow>
             (s1\<lparr>st_config := c'\<rparr>,
              case attach_vendorField e c' (r_type r) i t2 of
                Inl err \<Rightarrow> Inl err
              | Inr t3 \<Rightarrow>
                  build e
                    (sender_sign c' r
                      (multi_sign c' r
                        (multisig_sender e c' (r_type r) t3)))))"

text \<open>
  The whole body of the loop (lines 209-388): the payload pushed onto
  \<^verbatim>\<open>transactions\<close>, or the error thrown.
\<close>

definition build_one :: "env \<Rightarrow> run \<Rightarrow> nat \<Rightarrow> state \<Rightarrow> state \<times> (error + transaction)" where
  "build_one e r i s =
     (case sign_one e r i s of
        (s', Inl err) \<Rightarrow> (s', Inl err)
      | (s', Inr t) \<Rightarrow> (s', gate e (st_config s') t))"

text \<open>
  The loop of line 208 from index \<open>i\<close> with \<open>k\<close> iterations to go. A throw leaves the
  loop: the list \<^verbatim>\<open>transactions\<close> is lost, the globals stay as they are.
\<close>

fun main_loop ::
  "env \<Rightarrow> run \<Rightarrow> nat \<Rightarrow> nat \<Rightarrow> state \<Rightarrow> transaction list \<Rightarrow> state \<times> (error + transaction list)" where
  "main_loop e r i 0 s transactions = (s, Inr transactions)"
| "main_loop e r i (Suc k) s transactions =
     (case build_one e r i s of
        (s', Inl err) \<Rightarrow> (s', Inl err)
      | (s', Inr payload) \<Rightarrow> main_loop e r (Suc i) k s' (transactions @ [payload]))"

text \<open>Lines 184-188: \<^verbatim>\<open>+type\<close> and \<^verbatim>\<open>quantity || 1\<close>.\<close>

definition input_type :: "env \<Rightarrow> string list \<Rightarrow> jsnum" where
  "input_type e splitInput =
     (case item splitInput 0 of None \<Rightarrow> NaN | Some w \<Rightarrow> toNumber e w)"

definition input_quantity :: "env \<Rightarrow> string list \<Rightarrow> jsnum" where
  "input_quantity e splitInput =
     (case item splitInput 1 of
        None \<Rightarrow> Finite 1
      | Some q \<Rightarrow> if q = [] then Finite 1 else toNumber e q)"

text \<open>
  Lines 184-204: the constants of the run and the number of iterations, or the error
  thrown before the loop.
\<close>

definition prepare :: "env \<Rightarrow> config \<Rightarrow> string \<Rightarrow> error + run \<times> nat" where
  "prepare e c data =
     (let splitInput = split_space data;
          type = input_type e splitInput;
          quantity = input_quantity e splitInput
      in case builders type of
           None \<Rightarrow> Inl UnknownType
         | Some ty \<Rightarrow>
             (case (if truthy (cfg_passphrase c) then cfg_passphrase c
                    else map_option passphrase (random_wallet (random_sender e))) of
                None \<Rightarrow> Inl TypeError
              | Some senderSecret \<Rightarrow>
                  (case random_wallet (random_recipient e) of
                     None \<Rightarrow> Inl TypeError
                   | Some recipient \<Rightarrow>
                       (let recipientSecret = passphrase recipient;
                            pk = publicKey_fromPassphrase e senderSecret;
                            recipientId = or_str (cfg_recipientId c)
                                            (address_fromPassphrase e recipientSecret);
                            senderWallet = retrieveSenderWallet e (address_fromPublicKey e pk)
                        in Inr (\<lparr>r_type = ty, r_splitInput = splitInput,
                                  r_senderSecret = senderSecret, r_senderPublicKey = pk,
                                  r_recipientId = recipientId,
                                  r_senderWallet = senderWallet
                                    \<lparr>w_publicKey := Some (or_str (w_publicKey senderWallet) pk)\<rparr>,
                                  r_walletPublicKey = or_str (w_publicKey senderWallet) pk\<rparr>,
                                iterations quantity)))))"

text \<open>
  What a run ends with: the batch handed to \<^verbatim>\<open>postTransaction\<close> and posted, the same
  with \<^verbatim>\<open>config.coldrun\<close> set (nothing is sent), or the error caught in line 393.
\<close>

datatype outcome =
    is_Posted: Posted (batch: "transaction list")
  | NotPosted "transaction list"
  | Failed error

definition main :: "env \<Rightarrow> string \<Rightarrow> state \<Rightarrow> state \<times> outcome" where
  "main e data s =
     (case prepare e (st_config s) data of
        Inl err \<Rightarrow> (s, Failed err)
      | Inr (r, n) \<Rightarrow>
          (case main_loop e r 0 n s [] of
             (s', Inl err) \<Rightarrow> (s', Failed err)
           | (s', Inr transactions) \<Rightarrow>
               (s', if cfg_coldrun (st_config s') then NotPosted transactions
                    else Posted transactions)))"

text \<open>The list \<^verbatim>\<open>asset.payments\<close> of a payload (empty when it has none).\<close>

definition payments :: "transaction \<Rightarrow> (string \<times> string) list" where
  "payments t = (case tx_asset t of PaymentsAsset ps \<Rightarrow> ps | _ \<Rightarrow> [])"

subsection \<open>The configuration as shipped, and a sample outside world\<close>

text \<open>The literal of lines 62-151, the two digests written out.\<close>

definition default_config :: config where
  "default_config =
     \<lparr>cfg_verbose = True, cfg_peer = None, cfg_ecdsa = False, cfg_passphrase = None,
      cfg_coldrun = False, cfg_recipientId = None, cfg_startNonce = Undefined,
      cfg_expiration = None, cfg_amount = ''1'', cfg_fee = None,
      cfg_vendorField_value = None, cfg_vendorField_random = True,
      cfg_secondPassphrase = None, cfg_delegateName = None, cfg_vote = None,
      cfg_unvote = None, cfg_multiSignature_enabled = False,
      cfg_multiSignature_asset_participants =
        [''multisig participant 1'', ''multisig participant 2'', ''multisig participant 3''],
      cfg_multiSignature_asset_min = 2,
      cfg_multiSignature_passphrases =
        [(0, ''multisig participant 1''), (1, ''multisig participant 2''),
         (2, ''multisig participant 3'')],
      cfg_ipfs = ''QmYSK2JyM3RyDyB52caZCTKFR3HKniEcMnNJYdk8DQ6KKB'',
      cfg_multiPayments = Some [],
      cfg_htlc_lock_secretHash =
        ''09b9a28393efd02fcd76a21b0f0f55ba2aad8f3640ff8cae86de033a9cfbd78c'',
      cfg_htlc_lock_expiration_type = 1,
      cfg_htlc_lock_expiration_value = 52 * 8,
      cfg_htlc_claim_lockTransactionId = None,
      cfg_htlc_claim_unlockSecret = ''f5ea877a311ced90cf4524cb489e972f'',
      cfg_htlc_refund_lockTransactionId = None\<rparr>"

definition initial_state :: state where
  "initial_state = \<lparr>st_nonces = Map.empty, st_config = default_config\<rparr>"

text \<open>
  A sample outside world for concrete runs: every wallet is cold, no lock is found,
  the network time is \<open>1000\<close>, \<^verbatim>\<open>Math.random()\<close> returns \<open>0\<close> (and the string
  \<^verbatim>\<open>"0"\<close>), every payload verifies. The library allows \<open>128\<close> payments and a vendor
  field of \<open>255\<close> bytes, signs and builds every draft except an entity draft without an
  action, and keeps the vendor field of a Transfer, a MultiPayment and an HTLC lock. The identity functions of the crypto library are
  replaced by tagging; \<open>decimal\<close> reads a string of decimal digits as \<^verbatim>\<open>+s\<close> and
  \<^verbatim>\<open>parseInt(s)\<close> do.
\<close>

definition digit_value :: "char \<Rightarrow> nat option" where
  "digit_value c =
     (let n = (of_char c :: nat) in if 48 \<le> n \<and> n \<le> 57 then Some (n - 48) else None)"

fun decimal :: "string \<Rightarrow> nat \<Rightarrow> jsnum" where
  "decimal [] n = Finite (of_nat n)"
| "decimal (c # cs) n =
     (case digit_value c of None \<Rightarrow> NaN | Some d \<Rightarrow> decimal cs (10 * n + d))"

definition sample_env :: env where
  "sample_env =
     \<lparr>aip11 = True,
      toNumber = (\<lambda>s. decimal s 0),
      parseInt = (\<lambda>x. case x of None \<Rightarrow> NaN | Some s \<Rightarrow> if s = [] then NaN else decimal s 0),
      random_sender = 0, random_recipient = 0,
      random_count = (\<lambda>i. 0), random_vendorField = (\<lambda>i. ''0''),
      publicKey_fromPassphrase = (\<lambda>p. ''pk:'' @ p),
      address_fromPassphrase = (\<lambda>p. ''addr:'' @ p),
      address_fromPublicKey = (\<lambda>k. ''addr-of:'' @ k),
      publicKey_fromMultiSignatureAsset = (\<lambda>m ks. ''multisig-pk:'' @ concat ks),
      address_fromMultiSignatureAsset = (\<lambda>m ks. ''multisig-addr:'' @ concat ks),
      http_wallet = (\<lambda>a. None),
      http_transactions = (\<lambda>k ty. None),
      http_status_timestamp = (\<lambda>i. Some 1000),
      verify = (\<lambda>t. True),
      multiPaymentLimit = 128,
      maxVendorFieldLength = 255,
      library_builds =
        (\<lambda>t. case tx_asset t of EntityAsset a \<Rightarrow> ea_action a \<noteq> None | _ \<Rightarrow> True),
      hasVendorField = (\<lambda>k. k = 0 \<or> k = 6 \<or> k = 8)\<rparr>"

text \<open>
  The constants of a run of kind \<open>ty\<close> in the sample world with the configuration as
  shipped: \<^verbatim>\<open>Math.random()\<close> is \<open>0\<close>, so sender and recipient are the first fixture.
\<close>

definition sample_run :: "int \<Rightarrow> string list \<Rightarrow> run" where
  "sample_run ty splitInput =
     \<lparr>r_type = ty, r_splitInput = splitInput, r_senderSecret = ''2.6-wallet1'',
      r_senderPublicKey = ''pk:2.6-wallet1'', r_recipientId = ''addr:2.6-wallet1'',
      r_senderWallet = cold_wallet\<lparr>w_publicKey := Some ''pk:2.6-wallet1''\<rparr>,
      r_walletPublicKey = ''pk:2.6-wallet1''\<rparr>"

section \<open>Properties\<close>

lemmas kinds = Transfer_def SecondSignature_def DelegateRegistration_def Vote_def
  MultiSignature_def Ipfs_def MultiPayment_def DelegateResignation_def HtlcLock_def
  HtlcClaim_def HtlcRefund_def

declare exp_up.simps [simp del] exp_down.simps [simp del]

subsection \<open>Rounding\<close>


lemma rne_of_int: "rne (of_int n) = n"
  by (simp add: rne_def)

lemma rne_floor: "\<lfloor>y\<rfloor> \<le> rne y" "rne y \<le> \<lfloor>y\<rfloor> + 1"
  by (simp_all add: rne_def Let_def)

lemma rne_mono:
  assumes "a \<le> b"
  shows "rne a \<le> rne b"
proof (cases "\<lfloor>a\<rfloor> < \<lfloor>b\<rfloor>")
  case True
  with rne_floor(2) [of a] rne_floor(1) [of b] show ?thesis by linarith
next
  case False
  with assms have eq: "\<lfloor>a\<rfloor> = \<lfloor>b\<rfloor>"
    using floor_mono [of a b] by linarith
  with assms have "a - of_int \<lfloor>a\<rfloor> \<le> b - of_int \<lfloor>b\<rfloor>" by simp
  then show ?thesis
    unfolding rne_def Let_def eq by auto
qed

lemma pow2_powi: "pow2 e = 2 powi e"
  by (simp add: pow2_def power_int_def inverse_eq_divide power_divide)

lemma pow2_pos: "0 < pow2 e"
  by (simp add: pow2_def)

lemma pow2_mono: "a \<le> b \<Longrightarrow> pow2 a \<le> pow2 b"
  unfolding pow2_powi by (rule power_int_increasing) simp_all

lemma exp_up_lower: "1 \<le> x \<Longrightarrow> 0 \<le> exp_up x \<and> pow2 (exp_up x) \<le> x"
proof (induction x rule: exp_up.induct)
  case (1 x)
  show ?case
  proof (cases "x < 2")
    case True
    with "1.prems" show ?thesis
      by (simp add: exp_up.simps [of x] pow2_def)
  next
    case False
    then have "1 \<le> x / 2" by simp
    from "1.IH" [OF False this] have ih: "0 \<le> exp_up (x / 2)" "pow2 (exp_up (x / 2)) \<le> x / 2"
      by simp_all
    have "pow2 (1 + exp_up (x / 2)) = 2 * pow2 (exp_up (x / 2))"
      using ih(1) by (simp add: pow2_def nat_add_distrib)
    with ih False show ?thesis
      by (simp add: exp_up.simps [of x])
  qed
qed

lemma exp_down_lower: "0 < x \<Longrightarrow> x < 1 \<Longrightarrow> exp_down x < 0 \<and> pow2 (exp_down x) \<le> x"
proof (induction x rule: exp_down.induct)
  case (1 x)
  then have nb: "\<not> (x \<le> 0 \<or> 1 \<le> x)" by simp
  show ?case
  proof (cases "2 * x < 1")
    case False
    then have "exp_down (2 * x) = 0"
      by (simp add: exp_down.simps [of "2 * x"])
    with nb False show ?thesis
      by (simp add: exp_down.simps [of x] pow2_def)
  next
    case True
    with "1.prems" have "0 < 2 * x" by simp
    from "1.IH" [OF nb this True]
    have ih: "exp_down (2 * x) < 0" "pow2 (exp_down (2 * x)) \<le> 2 * x"
      by simp_all
    have "pow2 (exp_down (2 * x) - 1) = pow2 (exp_down (2 * x)) / 2"
      unfolding pow2_powi by (simp add: power_int_diff)
    with ih nb show ?thesis
      by (simp add: exp_down.simps [of x])
  qed
qed

lemma floor_log2_lower: "0 < x \<Longrightarrow> pow2 (floor_log2 x) \<le> x"
  using exp_up_lower [of x] exp_down_lower [of x]
  by (cases "1 \<le> x") (simp_all add: floor_log2_def)

lemma floor_log2_less:
  assumes "0 < x" and "x < pow2 k"
  shows "floor_log2 x < k"
proof (rule ccontr)
  assume "\<not> floor_log2 x < k"
  then have "pow2 k \<le> pow2 (floor_log2 x)" by (simp add: pow2_mono)
  with floor_log2_lower [OF assms(1)] assms(2) show False by simp
qed

lemma exp_up_upper: "1 \<le> x \<Longrightarrow> x < pow2 (exp_up x + 1)"
proof (induction x rule: exp_up.induct)
  case (1 x)
  show ?case
  proof (cases "x < 2")
    case True
    then show ?thesis
      by (simp add: exp_up.simps [of x] pow2_def)
  next
    case False
    then have h: "1 \<le> x / 2" by simp
    from "1.IH" [OF False h] have ih: "x / 2 < pow2 (exp_up (x / 2) + 1)" .
    have "pow2 (1 + exp_up (x / 2) + 1) = 2 * pow2 (exp_up (x / 2) + 1)"
      using exp_up_lower [OF h] by (simp add: pow2_def nat_add_distrib)
    with ih False show ?thesis
      by (simp add: exp_up.simps [of x])
  qed
qed

lemma exp_down_upper: "0 < x \<Longrightarrow> x < 1 \<Longrightarrow> x < pow2 (exp_down x + 1)"
proof (induction x rule: exp_down.induct)
  case (1 x)
  then have nb: "\<not> (x \<le> 0 \<or> 1 \<le> x)" by simp
  show ?case
  proof (cases "2 * x < 1")
    case False
    then have "exp_down (2 * x) = 0"
      by (simp add: exp_down.simps [of "2 * x"])
    with nb "1.prems" show ?thesis
      by (simp add: exp_down.simps [of x] pow2_def)
  next
    case True
    with "1.prems" have "0 < 2 * x" by simp
    from "1.IH" [OF nb this True] have ih: "2 * x < pow2 (exp_down (2 * x) + 1)" .
    have "pow2 (exp_down (2 * x) - 1 + 1) = pow2 (exp_down (2 * x) + 1) / 2"
      unfolding pow2_powi by (simp add: power_int_add)
    with ih nb show ?thesis
      by (simp add: exp_down.simps [of x])
  qed
qed

text \<open>\<open>floor_log2\<close> is the binary exponent.\<close>

lemma floor_log2_correct:
  assumes "0 < x"
  shows "pow2 (floor_log2 x) \<le> x" and "x < pow2 (floor_log2 x + 1)"
  using assms exp_up_upper [of x] exp_down_upper [of x] floor_log2_lower [of x]
  by (cases "1 \<le> x"; simp add: floor_log2_def)+

text \<open>\<open>fl\<close> moves a value by at most half a unit in the last place.\<close>

lemma rne_error: "\<bar>of_int (rne y) - y\<bar> \<le> 1 / 2"
proof -
  define d where "d = y - of_int \<lfloor>y\<rfloor>"
  have d: "0 \<le> d" "d < 1" unfolding d_def by linarith+
  have down: "of_int (rne y) - y = - d" if "rne y = \<lfloor>y\<rfloor>"
    using that by (simp add: d_def)
  have up: "of_int (rne y) - y = 1 - d" if "rne y = \<lfloor>y\<rfloor> + 1"
    using that by (simp add: d_def)
  consider "d < 1 / 2" | "1 / 2 < d" | "d = 1 / 2" by linarith
  then show ?thesis
  proof cases
    case 1
    then have "rne y = \<lfloor>y\<rfloor>" by (simp add: rne_def Let_def d_def)
    from down [OF this] 1 d show ?thesis by simp
  next
    case 2
    then have "rne y = \<lfloor>y\<rfloor> + 1" by (simp add: rne_def Let_def d_def)
    from up [OF this] 2 d show ?thesis by simp
  next
    case 3
    then have "rne y = \<lfloor>y\<rfloor> \<or> rne y = \<lfloor>y\<rfloor> + 1"
      by (simp add: rne_def Let_def d_def)
    then show ?thesis
    proof
      assume "rne y = \<lfloor>y\<rfloor>"
      from down [OF this] 3 show ?thesis by simp
    next
      assume "rne y = \<lfloor>y\<rfloor> + 1"
      from up [OF this] 3 show ?thesis by simp
    qed
  qed
qed

lemma fl_error:
  "\<bar>fl x - x\<bar> \<le> pow2 (max (floor_log2 \<bar>x\<bar>) (- 1022) - 52) / 2"
proof (cases "x = 0")
  case True
  then show ?thesis by (simp add: fl_def pow2_pos less_imp_le)
next
  case False
  define u where "u = pow2 (max (floor_log2 \<bar>x\<bar>) (- 1022) - 52)"
  have u: "0 < u" by (simp add: u_def pow2_pos)
  have "fl x - x = (of_int (rne (x / u)) - x / u) * u"
    using False u by (simp add: fl_def u_def [symmetric] Let_def algebra_simps)
  then have "\<bar>fl x - x\<bar> = \<bar>of_int (rne (x / u)) - x / u\<bar> * u"
    using u by (simp add: abs_mult)
  also have "\<dots> \<le> (1 / 2) * u"
    using rne_error [of "x / u"] u by (intro mult_right_mono) simp_all
  finally show ?thesis by (simp add: u_def)
qed

text \<open>Below \<open>2^53\<close> every integer is a double, and rounding does not cross it.\<close>

lemma fl_int_bounds:
  assumes "0 < x" and "x < 2 ^ 53"
  shows "of_int n \<le> x \<Longrightarrow> of_int n \<le> fl x" and "x \<le> of_int n \<Longrightarrow> fl x \<le> of_int n"
proof -
  define e where "e = max (floor_log2 x) (- 1022)"
  define k where "k = nat (52 - e)"
  have "x < pow2 53" using assms(2) by (simp add: pow2_def)
  with assms(1) have "floor_log2 x < 53" by (rule floor_log2_less)
  then have e: "e \<le> 52" by (simp add: e_def)
  then have "pow2 (e - 52) = 1 / 2 ^ k"
    by (auto simp: pow2_def k_def)
  then have u: "pow2 (max (floor_log2 x) (- 1022) - 52) = 1 / 2 ^ k"
    by (simp add: e_def)
  have f: "fl x = of_int (rne (x * 2 ^ k)) / 2 ^ k"
    using assms(1) by (simp add: fl_def Let_def u)
  have i: "rne (of_int n * 2 ^ k) = n * 2 ^ k"
    using rne_of_int [of "n * 2 ^ k"] by simp
  {
    assume "of_int n \<le> x"
    then have "of_int n * 2 ^ k \<le> x * (2 ^ k :: rat)" by simp
    from rne_mono [OF this] i have "n * 2 ^ k \<le> rne (x * 2 ^ k)" by simp
    then have "of_int (n * 2 ^ k) \<le> (of_int (rne (x * 2 ^ k)) :: rat)"
      by (simp only: of_int_le_iff)
    then show "of_int n \<le> fl x"
      unfolding f by (simp add: pos_le_divide_eq)
  }
  {
    assume "x \<le> of_int n"
    then have "x * (2 ^ k :: rat) \<le> of_int n * 2 ^ k" by simp
    from rne_mono [OF this] i have "rne (x * 2 ^ k) \<le> n * 2 ^ k" by simp
    then have "(of_int (rne (x * 2 ^ k)) :: rat) \<le> of_int (n * 2 ^ k)"
      by (simp only: of_int_le_iff)
    then show "fl x \<le> of_int n"
      unfolding f by (simp add: pos_divide_le_eq)
  }
qed

lemma fl_0: "fl 0 = 0"
  by (simp add: fl_def)

lemma payment_count_bounds:
  assumes "0 \<le> r" and "r < 1"
  shows "64 \<le> payment_count r \<and> payment_count r \<le> 129"
proof -
  define p where "p = js_mul r (128 - 64 + 1)"
  have p: "0 \<le> p \<and> p \<le> 65"
  proof (cases "r = 0")
    case True
    then show ?thesis by (simp add: p_def js_mul_def fl_0)
  next
    case False
    with assms have "0 < r * 65" "r * 65 < 2 ^ 53" "of_int 0 \<le> r * 65" "r * 65 \<le> of_int 65"
      by simp_all
    from fl_int_bounds(1) [OF this(1,2,3)] fl_int_bounds(2) [OF this(1,2,4)]
    show ?thesis by (simp add: p_def js_mul_def)
  qed
  then have "0 < p + 64" "p + 64 < 2 ^ 53" "of_int 64 \<le> p + 64" "p + 64 \<le> of_int 129"
    by simp_all
  from fl_int_bounds(1) [OF this(1,2,3)] fl_int_bounds(2) [OF this(1,2,4)]
  have "64 \<le> js_add p 64" "js_add p 64 \<le> 129"
    by (simp_all add: js_add_def)
  then have "64 \<le> \<lfloor>js_add p 64\<rfloor>" "\<lfloor>js_add p 64\<rfloor> \<le> 129"
    by (simp_all add: le_floor_iff floor_le_iff)
  then show ?thesis
    by (simp add: payment_count_def p_def)
qed


text \<open>The count at the bottom, in the middle and near the top of the range.\<close>

lemma payment_count_samples:
  "payment_count 0 = 64" "payment_count (1 / 2) = 96" "payment_count (1 - 1 / 2 ^ 51) = 128"
  by code_simp+

text \<open>The payments synthesized for a count.\<close>

lemma length_testWallets: "length testWallets = 58"
  by (simp add: testWallets_def)

lemma synthesized_payments_entries:
  "length (synthesized_payments count) = nat count"
  "i < nat count \<Longrightarrow>
     synthesized_payments count ! i = (address (testWallets ! (i mod 58)), ''1'')"
  "i < nat count \<Longrightarrow> i mod 58 < length testWallets"
  by (simp_all add: synthesized_payments_def length_testWallets)

subsection \<open>What the steps of an iteration leave alone\<close>

lemma resolve_expiration_other [simp]:
  "cfg_multiSignature_enabled (resolve_expiration e i c) = cfg_multiSignature_enabled c"
  "cfg_startNonce (resolve_expiration e i c) = cfg_startNonce c"
  "cfg_htlc_lock_expiration_type (resolve_expiration e i c) = cfg_htlc_lock_expiration_type c"
  "cfg_htlc_lock_secretHash (resolve_expiration e i c) = cfg_htlc_lock_secretHash c"
  "cfg_multiSignature_passphrases (resolve_expiration e i c) = cfg_multiSignature_passphrases c"
  "cfg_multiSignature_asset_participants (resolve_expiration e i c) =
     cfg_multiSignature_asset_participants c"
  "cfg_multiSignature_asset_min (resolve_expiration e i c) = cfg_multiSignature_asset_min c"
  "cfg_vendorField_value (resolve_expiration e i c) = cfg_vendorField_value c"
  "cfg_vendorField_random (resolve_expiration e i c) = cfg_vendorField_random c"
  "cfg_coldrun (resolve_expiration e i c) = cfg_coldrun c"
  by (simp_all add: resolve_expiration_def Let_def)

lemma populate_config:
  "fst (populate e c r i t) =
     (if r_type r = HtlcLock \<and> aip11 e then resolve_expiration e i c else c)"
  by (simp add: populate_def Let_def kinds split: sum.splits)

lemma populate_keeps:
  assumes "snd (populate e c r i t) = Inr t'"
  shows "tx_nonce t' = tx_nonce t" "tx_senderPublicKey t' = tx_senderPublicKey t"
    "tx_signatures t' = tx_signatures t" "tx_vendorField t' = tx_vendorField t"
    "tx_type t' = tx_type t"
  using assms by (auto simp: populate_def Let_def split: if_splits sum.splits)

lemma attach_vendorField_keeps:
  assumes "attach_vendorField e c ty i t = Inr t'"
  shows "tx_nonce t' = tx_nonce t" "tx_senderPublicKey t' = tx_senderPublicKey t"
    "tx_signatures t' = tx_signatures t" "tx_asset t' = tx_asset t" "tx_type t' = tx_type t"
  using assms by (auto simp: attach_vendorField_def Let_def split: if_splits)

lemma payload_of_keeps [simp]:
  "tx_nonce (payload_of e t) = tx_nonce t"
  "tx_senderPublicKey (payload_of e t) = tx_senderPublicKey t"
  "tx_signatures (payload_of e t) = tx_signatures t"
  "tx_asset (payload_of e t) = tx_asset t"
  "tx_type (payload_of e t) = tx_type t"
  by (simp_all add: payload_of_def)

lemma multisig_sender_keeps [simp]:
  "tx_nonce (multisig_sender e c ty t) = tx_nonce t"
  "tx_signatures (multisig_sender e c ty t) = tx_signatures t"
  "tx_vendorField (multisig_sender e c ty t) = tx_vendorField t"
  "tx_asset (multisig_sender e c ty t) = tx_asset t"
  "tx_type (multisig_sender e c ty t) = tx_type t"
  by (simp_all add: multisig_sender_def)

lemma multi_sign_keeps [simp]:
  "tx_nonce (multi_sign c r t) = tx_nonce t"
  "tx_vendorField (multi_sign c r t) = tx_vendorField t"
  "tx_asset (multi_sign c r t) = tx_asset t"
  "tx_type (multi_sign c r t) = tx_type t"
  by (simp_all add: multi_sign_def)

lemma sender_sign_keeps [simp]:
  "tx_nonce (sender_sign c r t) = tx_nonce t"
  "tx_senderPublicKey (sender_sign c r t) = tx_senderPublicKey t"
  "tx_vendorField (sender_sign c r t) = tx_vendorField t"
  "tx_asset (sender_sign c r t) = tx_asset t"
  "tx_type (sender_sign c r t) = tx_type t"
  by (simp_all add: sender_sign_def Let_def)

subsection \<open>The state after an iteration\<close>

lemma sign_one_state:
  "fst (sign_one e r i s) =
     s\<lparr>st_nonces := (st_nonces s)(r_senderPublicKey r \<mapsto> issued_nonce e r s),
       st_config := (if r_type r = HtlcLock \<and> aip11 e
                     then resolve_expiration e i (st_config s) else st_config s)\<rparr>"
proof -
  let ?t1 = "if truthy (cfg_fee (st_config s))
             then (new_transaction (r_type r) (issued_nonce e r s) (r_senderPublicKey r))
                    \<lparr>tx_fee := cfg_fee (st_config s)\<rparr>
             else new_transaction (r_type r) (issued_nonce e r s) (r_senderPublicKey r)"
  obtain c' res where p: "populate e (st_config s) r i ?t1 = (c', res)"
    by (cases "populate e (st_config s) r i ?t1")
  from p populate_config [of e "st_config s" r i ?t1]
  have c': "c' = (if r_type r = HtlcLock \<and> aip11 e
                  then resolve_expiration e i (st_config s) else st_config s)"
    by simp
  show ?thesis
    using p c' by (cases res) (simp_all add: sign_one_def Let_def)
qed

lemma build_one_state: "fst (build_one e r i s) = fst (sign_one e r i s)"
  by (simp add: build_one_def split: prod.splits sum.splits)

lemma build_one_nonces:
  "st_nonces (fst (build_one e r i s)) =
     (st_nonces s)(r_senderPublicKey r \<mapsto> issued_nonce e r s)"
  by (simp add: build_one_state sign_one_state)

lemma build_one_config:
  "st_config (fst (build_one e r i s)) =
     (if r_type r = HtlcLock \<and> aip11 e
      then resolve_expiration e i (st_config s) else st_config s)"
  by (simp add: build_one_state sign_one_state)

text \<open>What a payload that was built went through.\<close>

lemma sign_one_Inr:
  assumes "snd (sign_one e r i s) = Inr t"
  obtains t2 t3 where
    "snd (populate e (st_config s) r i
        (if truthy (cfg_fee (st_config s))
         then (new_transaction (r_type r) (issued_nonce e r s) (r_senderPublicKey r))
                \<lparr>tx_fee := cfg_fee (st_config s)\<rparr>
         else new_transaction (r_type r) (issued_nonce e r s) (r_senderPublicKey r))) = Inr t2"
    "attach_vendorField e (st_config (fst (sign_one e r i s))) (r_type r) i t2 = Inr t3"
    "library_builds e
       (sender_sign (st_config (fst (sign_one e r i s))) r
          (multi_sign (st_config (fst (sign_one e r i s))) r
            (multisig_sender e (st_config (fst (sign_one e r i s))) (r_type r) t3)))"
    "t = payload_of e
          (sender_sign (st_config (fst (sign_one e r i s))) r
            (multi_sign (st_config (fst (sign_one e r i s))) r
              (multisig_sender e (st_config (fst (sign_one e r i s))) (r_type r) t3)))"
  using assms
  by (auto simp: sign_one_def Let_def build_def split: prod.splits sum.splits if_splits)

lemma build_one_Inr:
  assumes "snd (build_one e r i s) = Inr t"
  shows "snd (sign_one e r i s) = Inr t"
  using assms
  by (auto simp: build_one_def gate_def split: prod.splits sum.splits if_splits)

lemma sign_one_nonce:
  assumes "snd (sign_one e r i s) = Inr t"
  shows "tx_nonce t = issued_nonce e r s"
proof -
  let ?c = "st_config (fst (sign_one e r i s))"
  from assms obtain t2 t3 where
    p: "snd (populate e (st_config s) r i
        (if truthy (cfg_fee (st_config s))
         then (new_transaction (r_type r) (issued_nonce e r s) (r_senderPublicKey r))
                \<lparr>tx_fee := cfg_fee (st_config s)\<rparr>
         else new_transaction (r_type r) (issued_nonce e r s) (r_senderPublicKey r))) = Inr t2"
    and v: "attach_vendorField e ?c (r_type r) i t2 = Inr t3"
    and t: "t = payload_of e (sender_sign ?c r (multi_sign ?c r
              (multisig_sender e ?c (r_type r) t3)))"
    by (rule sign_one_Inr)
  from populate_keeps(1) [OF p] have "tx_nonce t2 = issued_nonce e r s"
    by (simp add: new_transaction_def)
  with attach_vendorField_keeps(1) [OF v] t show ?thesis by simp
qed

lemma multiSignatureAddress_resolve [simp]:
  "multiSignatureAddress e (resolve_expiration e' i c) = multiSignatureAddress e c"
  by (simp add: multiSignatureAddress_def)

lemma sign_one_config_other:
  "cfg_multiSignature_enabled (st_config (fst (sign_one e r i s)))
     = cfg_multiSignature_enabled (st_config s)"
  "cfg_multiSignature_passphrases (st_config (fst (sign_one e r i s)))
     = cfg_multiSignature_passphrases (st_config s)"
  "cfg_vendorField_value (st_config (fst (sign_one e r i s)))
     = cfg_vendorField_value (st_config s)"
  "cfg_vendorField_random (st_config (fst (sign_one e r i s)))
     = cfg_vendorField_random (st_config s)"
  "multiSignatureAddress e' (st_config (fst (sign_one e r i s)))
     = multiSignatureAddress e' (st_config s)"
  by (simp_all add: sign_one_state)

lemma populate_HtlcLock:
  assumes "r_type r = HtlcLock" and "aip11 e"
  shows "fst (populate e c r i t) = resolve_expiration e i c"
    and "snd (populate e c r i t) = Inr t2 \<Longrightarrow>
         tx_asset t2 = HtlcLockAsset (cfg_htlc_lock_secretHash c)
           (cfg_htlc_lock_expiration_type c)
           (cfg_htlc_lock_expiration_value (resolve_expiration e i c))"
  using assms by (auto simp: populate_def Let_def kinds)

lemma sign_one_asset:
  assumes "snd (sign_one e r i s) = Inr t" and "r_type r = HtlcLock" and "aip11 e"
  shows "tx_asset t = HtlcLockAsset (cfg_htlc_lock_secretHash (st_config s))
           (cfg_htlc_lock_expiration_type (st_config s))
           (cfg_htlc_lock_expiration_value (resolve_expiration e i (st_config s)))"
proof -
  let ?c = "st_config (fst (sign_one e r i s))"
  from assms(1) obtain t2 t3 where
    p: "snd (populate e (st_config s) r i
        (if truthy (cfg_fee (st_config s))
         then (new_transaction (r_type r) (issued_nonce e r s) (r_senderPublicKey r))
                \<lparr>tx_fee := cfg_fee (st_config s)\<rparr>
         else new_transaction (r_type r) (issued_nonce e r s) (r_senderPublicKey r))) = Inr t2"
    and v: "attach_vendorField e ?c (r_type r) i t2 = Inr t3"
    and t: "t = payload_of e (sender_sign ?c r (multi_sign ?c r
              (multisig_sender e ?c (r_type r) t3)))"
    by (rule sign_one_Inr)
  from populate_HtlcLock(2) [OF assms(2,3) p] attach_vendorField_keeps(4) [OF v] t
  show ?thesis
    by simp
qed

lemma resolve_expiration_fixed:
  assumes "retrieveNetworktime e i \<le> cfg_htlc_lock_expiration_value c"
  shows "resolve_expiration e i c = c"
  using assms by (simp add: resolve_expiration_def Let_def)


lemma sign_one_type:
  assumes "snd (sign_one e r i s) = Inr t"
  shows "tx_type t = r_type r"
proof -
  let ?c = "st_config (fst (sign_one e r i s))"
  from assms obtain t2 t3 where
    p: "snd (populate e (st_config s) r i
        (if truthy (cfg_fee (st_config s))
         then (new_transaction (r_type r) (issued_nonce e r s) (r_senderPublicKey r))
                \<lparr>tx_fee := cfg_fee (st_config s)\<rparr>
         else new_transaction (r_type r) (issued_nonce e r s) (r_senderPublicKey r))) = Inr t2"
    and v: "attach_vendorField e ?c (r_type r) i t2 = Inr t3"
    and t: "t = payload_of e (sender_sign ?c r (multi_sign ?c r
              (multisig_sender e ?c (r_type r) t3)))"
    by (rule sign_one_Inr)
  from populate_keeps(5) [OF p] have "tx_type t2 = r_type r"
    by (simp add: new_transaction_def)
  with attach_vendorField_keeps(5) [OF v] t show ?thesis by simp
qed

text \<open>
  On the builder, lines 343-345 set a configured value for any kind of transaction;
  which kinds keep it in the payload is the library's matter.
\<close>

lemma attach_vendorField_configured:
  assumes "truthy (cfg_vendorField_value c)"
    and "length (or_str (cfg_vendorField_value c) []) \<le> maxVendorFieldLength e"
  shows "attach_vendorField e c ty i t = Inr (t\<lparr>tx_vendorField := cfg_vendorField_value c\<rparr>)"
  using assms by (simp add: attach_vendorField_def vendor_field_def Let_def)

subsection \<open>The loop\<close>

lemma main_loop_length:
  "snd (main_loop e r i k s txs) = Inr out \<Longrightarrow> length out = length txs + k"
proof (induction k arbitrary: i s txs)
  case 0
  then show ?case by simp
next
  case (Suc k)
  then show ?case
    by (auto split: prod.splits sum.splits)
qed

lemma main_loop_add:
  "snd (main_loop e r i j s txs) = Inr txs' \<Longrightarrow>
   main_loop e r i (j + m) s txs = main_loop e r (i + j) m (fst (main_loop e r i j s txs)) txs'"
proof (induction j arbitrary: i s txs)
  case 0
  then show ?case by simp
next
  case (Suc j)
  obtain s1 res where b: "build_one e r i s = (s1, res)"
    by (cases "build_one e r i s")
  show ?case
  proof (cases res)
    case (Inl err)
    with b Suc.prems show ?thesis by simp
  next
    case (Inr payload)
    with b Suc.prems have "snd (main_loop e r (Suc i) j s1 (txs @ [payload])) = Inr txs'"
      by simp
    from Suc.IH [OF this] b Inr show ?thesis by simp
  qed
qed

lemma main_loop_abort:
  assumes "snd (build_one e r i s) = Inl err"
  shows "main_loop e r i (Suc m) s txs = (fst (build_one e r i s), Inl err)"
  using assms by (cases "build_one e r i s") simp

subsection \<open>Consecutive nonces in a batch\<close>

lemma issued_nonce_next:
  "issued_nonce e r (fst (build_one e r i s)) = issued_nonce e r s + 1"
  by (simp add: issued_nonce_def next_nonce_def build_one_nonces)

lemma main_loop_nonces:
  "snd (main_loop e r i k s txs) = Inr out \<Longrightarrow>
   map tx_nonce out = map tx_nonce txs @ map (\<lambda>j. issued_nonce e r s + int j) [0..<k]"
proof (induction k arbitrary: i s txs)
  case 0
  then show ?case by simp
next
  case (Suc k)
  obtain s1 res where b: "build_one e r i s = (s1, res)"
    by (cases "build_one e r i s")
  show ?case
  proof (cases res)
    case (Inl err)
    with b Suc.prems show ?thesis by simp
  next
    case (Inr payload)
    with b have n: "tx_nonce payload = issued_nonce e r s"
      using sign_one_nonce [OF build_one_Inr, of e r i s payload] by simp
    from b have s1: "s1 = fst (build_one e r i s)" by simp
    from b Inr Suc.prems
    have "snd (main_loop e r (Suc i) k s1 (txs @ [payload])) = Inr out"
      by simp
    from Suc.IH [OF this]
    have "map tx_nonce out = map tx_nonce (txs @ [payload])
        @ map (\<lambda>j. issued_nonce e r s1 + int j) [0..<k]" .
    also have "map (\<lambda>j. issued_nonce e r s1 + int j) [0..<k]
        = map (\<lambda>j. issued_nonce e r s + int (Suc j)) [0..<k]"
      unfolding s1 issued_nonce_next by simp
    also have "\<dots> = map (\<lambda>j. issued_nonce e r s + int j) (map Suc [0..<k])"
      by (simp add: comp_def)
    also have "map Suc [0..<k] = [Suc 0..<Suc k]"
      by (rule map_Suc_upt)
    finally show ?thesis
      using n by (simp add: upt_conv_Cons del: upt_Suc)
  qed
qed

subsection \<open>A MultiPayment without configured payments\<close>

lemma populate_MultiPayment:
  assumes "r_type r = MultiPayment" and "aip11 e"
    and "snd (populate e c r i t) = Inr t2"
  shows "tx_asset t2 = PaymentsAsset (payments_of e c i)"
    and "length (payments_of e c i) \<le> multiPaymentLimit e"
  using assms by (auto simp: populate_def Let_def kinds split: if_splits)

lemma multipayment_synthesized:
  assumes "r_type r = MultiPayment" and "aip11 e"
    and "cfg_multiPayments (st_config s) = None \<or> cfg_multiPayments (st_config s) = Some []"
    and "0 \<le> random_count e i" and "random_count e i < 1"
    and "snd (build_one e r i s) = Inr t"
  shows "64 \<le> length (payments t)" and "length (payments t) \<le> 129"
    and "length (payments t) \<le> multiPaymentLimit e"
    and "j < length (payments t) \<Longrightarrow>
         payments t ! j = (address (testWallets ! (j mod length testWallets)), ''1'')"
proof -
  let ?c = "st_config (fst (sign_one e r i s))"
  from assms(6) have "snd (sign_one e r i s) = Inr t"
    by (rule build_one_Inr)
  then obtain t2 t3 where
    p: "snd (populate e (st_config s) r i
        (if truthy (cfg_fee (st_config s))
         then (new_transaction (r_type r) (issued_nonce e r s) (r_senderPublicKey r))
                \<lparr>tx_fee := cfg_fee (st_config s)\<rparr>
         else new_transaction (r_type r) (issued_nonce e r s) (r_senderPublicKey r))) = Inr t2"
    and v: "attach_vendorField e ?c (r_type r) i t2 = Inr t3"
    and t: "t = payload_of e (sender_sign ?c r (multi_sign ?c r
              (multisig_sender e ?c (r_type r) t3)))"
    by (rule sign_one_Inr)
  from populate_MultiPayment(1) [OF assms(1,2) p] attach_vendorField_keeps(4) [OF v] t
  have pt: "payments t = payments_of e (st_config s) i"
    by (simp add: payments_def)
  with assms(3)
  have eq: "payments t = synthesized_payments (payment_count (random_count e i))"
    by (auto simp: payments_of_def)
  from payment_count_bounds [OF assms(4,5)]
  show "64 \<le> length (payments t)" "length (payments t) \<le> 129"
    unfolding eq synthesized_payments_entries(1) by linarith+
  from populate_MultiPayment(2) [OF assms(1,2) p]
  show "length (payments t) \<le> multiPaymentLimit e"
    by (simp add: pt)
  show "payments t ! j = (address (testWallets ! (j mod length testWallets)), ''1'')"
    if "j < length (payments t)"
    using that unfolding eq
    by (simp add: synthesized_payments_entries length_testWallets)
qed

subsection \<open>A sample run\<close>

lemma prepare_sample:
  "prepare sample_env default_config ''0 2'' = Inr (sample_run 0 [''0'', ''2''], 2)"
  by code_simp

section \<open>Nonce sequencing\<close>

text \<open>
  Claim C1, as the code has it. The nonce issued in an iteration is the cached nonce of
  the sender plus one; when nothing is cached it is one more than the first truthy value
  among \<^verbatim>\<open>config.startNonce\<close>, the looked-up wallet nonce (of the composite account
  when multisig mode is enabled, else of the sender) and \<open>0\<close>. The override wins over
  the looked-up nonce whenever it is set, it is not compared with it. The issued nonce is
  stored in the cache whether or not the iteration succeeds, and a payload that is
  built carries it.
\<close>

theorem nonce_issue:
  "issued_nonce e r s =
     (case st_nonces s (r_senderPublicKey r) of
        Some previous \<Rightarrow> previous + 1
      | None \<Rightarrow>
          (case truthy_num (cfg_startNonce (st_config s)) of
             Some override \<Rightarrow> override + 1
           | None \<Rightarrow>
               (case truthy_num (senderNonce e (st_config s) (r_senderWallet r)) of
                  Some seed \<Rightarrow> seed + 1
                | None \<Rightarrow> 0 + 1)))
   \<and> senderNonce e (st_config s) (r_senderWallet r) =
       (if cfg_multiSignature_enabled (st_config s)
        then w_nonce (retrieveSenderWallet e (snd (multiSignatureAddress e (st_config s))))
        else w_nonce (r_senderWallet r))
   \<and> st_nonces (fst (build_one e r i s)) (r_senderPublicKey r) = Some (issued_nonce e r s)
   \<and> (\<forall>t. snd (build_one e r i s) = Inr t \<longrightarrow> tx_nonce t = issued_nonce e r s)"
proof -
  have "\<forall>t. snd (build_one e r i s) = Inr t \<longrightarrow> tx_nonce t = issued_nonce e r s"
    using build_one_Inr sign_one_nonce by blast
  moreover have "st_nonces (fst (build_one e r i s)) (r_senderPublicKey r)
      = Some (issued_nonce e r s)"
    by (simp add: build_one_nonces)
  ultimately show ?thesis
    by (simp add: issued_nonce_def next_nonce_def start_value_def senderNonce_def
        split: option.splits)
qed

text \<open>
  A first transfer of a sender whose wallet has nonce \<^verbatim>\<open>"10"\<close>, no override: the
  payload is built with nonce \<open>11\<close>, and \<open>11\<close> is cached.
\<close>

theorem nonce_issue_witness:
  "\<not> isl (snd (build_one sample_env
              ((sample_run 0 [''0''])\<lparr>r_senderWallet := cold_wallet\<lparr>w_nonce := NumStr 10\<rparr>\<rparr>)
              0 initial_state))
   \<and> tx_nonce (projr (snd (build_one sample_env
              ((sample_run 0 [''0''])\<lparr>r_senderWallet := cold_wallet\<lparr>w_nonce := NumStr 10\<rparr>\<rparr>)
              0 initial_state))) = 11
   \<and> st_nonces (fst (build_one sample_env
              ((sample_run 0 [''0''])\<lparr>r_senderWallet := cold_wallet\<lparr>w_nonce := NumStr 10\<rparr>\<rparr>)
              0 initial_state)) ''pk:2.6-wallet1'' = Some 11"
proof -
  let ?r = "(sample_run 0 [''0''])\<lparr>r_senderWallet := cold_wallet\<lparr>w_nonce := NumStr 10\<rparr>\<rparr>"
  have ok: "\<not> isl (snd (build_one sample_env ?r 0 initial_state))"
    by code_simp
  then have h: "snd (build_one sample_env ?r 0 initial_state)
      = Inr (projr (snd (build_one sample_env ?r 0 initial_state)))"
    by simp
  have pk: "r_senderPublicKey ?r = ''pk:2.6-wallet1''"
    by (simp add: sample_run_def)
  have n: "issued_nonce sample_env ?r initial_state = 11"
    by code_simp
  from nonce_issue [of sample_env ?r initial_state 0] h ok n show ?thesis
    unfolding pk by metis
qed

text \<open>
  With the override \<open>5\<close> and a wallet nonce \<^verbatim>\<open>"10"\<close> the first nonce is \<open>6\<close>, not
  \<open>max(5, 10, 0) + 1\<close>.
\<close>

theorem nonce_first_counterexample:
  "map tx_nonce (batch (snd (main
      (sample_env\<lparr>http_wallet := \<lambda>a. Some (cold_wallet\<lparr>w_nonce := NumStr 10\<rparr>)\<rparr>) ''0''
      (initial_state\<lparr>st_config := default_config\<lparr>cfg_startNonce := Num 5\<rparr>\<rparr>)))) = [6]
   \<and> (6::int) \<noteq> max 5 (max 10 0) + 1"
  by code_simp

section \<open>Expiration of an HTLC lock\<close>

text \<open>
  Claim C4. With \<open>v\<close> the configured expiration value and \<open>t\<close> the network time, the
  value after lines 292-297 is \<open>v\<close> for an EpochTimestamp expiration with \<open>v \<ge> t\<close>, it is
  \<open>v + t\<close> for an EpochTimestamp expiration with \<open>v < t\<close>, and it is \<open>v\<close> for a
  BlockHeight expiration whatever the time.
\<close>

theorem expiration_resolution:
  assumes "cfg_htlc_lock_expiration_value c = v" and "retrieveNetworktime e i = t"
  shows "(cfg_htlc_lock_expiration_type c = EpochTimestamp \<and> t \<le> v \<longrightarrow>
            cfg_htlc_lock_expiration_value (resolve_expiration e i c) = v)
       \<and> (cfg_htlc_lock_expiration_type c = EpochTimestamp \<and> v < t \<longrightarrow>
            cfg_htlc_lock_expiration_value (resolve_expiration e i c) = v + t)
       \<and> (cfg_htlc_lock_expiration_type c = BlockHeight \<longrightarrow>
            cfg_htlc_lock_expiration_value (resolve_expiration e i c) = v)"
  using assms
  by (simp add: resolve_expiration_def Let_def EpochTimestamp_def BlockHeight_def)

text \<open>At network time \<open>1000\<close>: \<open>2000\<close> stays, \<open>416\<close> becomes \<open>1416\<close>, a height stays.\<close>

theorem expiration_resolution_witness:
  "cfg_htlc_lock_expiration_value
     (resolve_expiration sample_env 0
        (default_config\<lparr>cfg_htlc_lock_expiration_value := 2000\<rparr>)) = 2000
   \<and> cfg_htlc_lock_expiration_value (resolve_expiration sample_env 0 default_config) = 416 + 1000
   \<and> cfg_htlc_lock_expiration_value
       (resolve_expiration sample_env 0
          (default_config\<lparr>cfg_htlc_lock_expiration_type := BlockHeight\<rparr>)) = 416"
proof -
  have t: "retrieveNetworktime sample_env 0 = 1000"
    by (simp add: retrieveNetworktime_def sample_env_def)
  have k: "cfg_htlc_lock_expiration_type default_config = EpochTimestamp"
    by (simp add: default_config_def EpochTimestamp_def)
  have v: "cfg_htlc_lock_expiration_value default_config = 416"
    by (simp add: default_config_def)
  have a: "cfg_htlc_lock_expiration_value
     (resolve_expiration sample_env 0
        (default_config\<lparr>cfg_htlc_lock_expiration_value := 2000\<rparr>)) = 2000"
    using expiration_resolution
      [of "default_config\<lparr>cfg_htlc_lock_expiration_value := 2000\<rparr>" 2000 sample_env 0 1000]
      t k by simp
  have b: "cfg_htlc_lock_expiration_value (resolve_expiration sample_env 0 default_config)
      = 416 + 1000"
    using expiration_resolution [of default_config 416 sample_env 0 1000] t k v by simp
  have c: "cfg_htlc_lock_expiration_value
       (resolve_expiration sample_env 0
          (default_config\<lparr>cfg_htlc_lock_expiration_type := BlockHeight\<rparr>)) = 416"
    using expiration_resolution
      [of "default_config\<lparr>cfg_htlc_lock_expiration_type := BlockHeight\<rparr>" 416 sample_env 0 1000]
      t v by simp
  from a b c show ?thesis by simp
qed


section \<open>Errors in a batch\<close>

text \<open>
  Claim C2, as the code has it. The \<^verbatim>\<open>try\<close> of line 181 encloses the whole loop. When
  the first \<open>j\<close> transactions of a batch of \<open>j + 1 + m\<close> are built and the next one throws,
  the run ends with that error: nothing is handed to \<^verbatim>\<open>postTransaction\<close>, the \<open>m\<close>
  indices after the failing one are never built, and the globals are left as the failing
  iteration left them.
\<close>

theorem batch_aborts_whole:
  assumes "prepare e (st_config s) data = Inr (r, j + Suc m)"
    and "snd (main_loop e r 0 j s []) = Inr txs"
    and "snd (build_one e r j (fst (main_loop e r 0 j s []))) = Inl err"
  shows "main e data s = (fst (build_one e r j (fst (main_loop e r 0 j s []))), Failed err)"
proof -
  have "main_loop e r 0 (j + Suc m) s []
      = main_loop e r (0 + j) (Suc m) (fst (main_loop e r 0 j s [])) txs"
    using assms(2) by (rule main_loop_add)
  also have "\<dots> = main_loop e r j (Suc m) (fst (main_loop e r 0 j s [])) txs"
    by simp
  also have "\<dots> = (fst (build_one e r j (fst (main_loop e r 0 j s []))), Inl err)"
    using assms(3) by (rule main_loop_abort)
  finally show ?thesis
    using assms(1) by (simp add: main_def)
qed

text \<open>A batch of three transfers whose second payload fails verification.\<close>

theorem batch_aborts_whole_witness:
  "main (sample_env\<lparr>verify := \<lambda>t. tx_nonce t \<noteq> 2\<rparr>) ''0 3'' initial_state =
     (fst (build_one (sample_env\<lparr>verify := \<lambda>t. tx_nonce t \<noteq> 2\<rparr>) (sample_run 0 [''0'', ''3'']) 1
        (fst (main_loop (sample_env\<lparr>verify := \<lambda>t. tx_nonce t \<noteq> 2\<rparr>)
           (sample_run 0 [''0'', ''3'']) 0 1 initial_state []))),
      Failed AssertionError)"
proof -
  let ?e = "sample_env\<lparr>verify := \<lambda>t. tx_nonce t \<noteq> 2\<rparr>"
  let ?r = "sample_run 0 [''0'', ''3'']"
  have p: "prepare ?e (st_config initial_state) ''0 3'' = Inr (?r, 1 + Suc 1)"
    by code_simp
  have l: "snd (main_loop ?e ?r 0 1 initial_state [])
      = Inr (projr (snd (main_loop ?e ?r 0 1 initial_state [])))"
    by code_simp
  have b: "snd (build_one ?e ?r 1 (fst (main_loop ?e ?r 0 1 initial_state [])))
      = Inl AssertionError"
    by code_simp
  from batch_aborts_whole [OF p l b] show ?thesis .
qed

text \<open>
  In that batch the first transfer is built and verified, yet the run ends with the
  assertion error instead of posting it, and the sender's cached nonce is \<open>2\<close>: the
  third index was never reached.
\<close>

theorem partial_batch_counterexample:
  "\<not> isl (snd (build_one (sample_env\<lparr>verify := \<lambda>t. tx_nonce t \<noteq> 2\<rparr>)
              (sample_run 0 [''0'', ''3'']) 0 initial_state))
   \<and> snd (main (sample_env\<lparr>verify := \<lambda>t. tx_nonce t \<noteq> 2\<rparr>) ''0 3'' initial_state)
       = Failed AssertionError
   \<and> st_nonces (fst (main (sample_env\<lparr>verify := \<lambda>t. tx_nonce t \<noteq> 2\<rparr>) ''0 3'' initial_state))
       ''pk:2.6-wallet1'' = Some 2"
  by code_simp

text \<open>
  Claim C9. An input whose kind has no entry in \<^verbatim>\<open>builders\<close> ends the run with
  "Unknown type" and leaves the globals, so the nonce cache, untouched. Any error thrown
  inside the loop body comes after line 220: the sender's cache entry has then been
  set to the nonce issued, which differs from the entry before.
\<close>

theorem unknown_kind_before_nonce:
  "(builders (input_type e (split_space data)) = None \<longrightarrow>
      main e data s = (s, Failed UnknownType))
   \<and> (snd (build_one e r i s) = Inl err \<longrightarrow>
        st_nonces (fst (build_one e r i s)) (r_senderPublicKey r) = Some (issued_nonce e r s)
      \<and> st_nonces (fst (build_one e r i s)) (r_senderPublicKey r)
          \<noteq> st_nonces s (r_senderPublicKey r))"
proof -
  have "issued_nonce e r s \<noteq> n" if "st_nonces s (r_senderPublicKey r) = Some n" for n
    using that by (simp add: issued_nonce_def next_nonce_def)
  then have "Some (issued_nonce e r s) \<noteq> st_nonces s (r_senderPublicKey r)"
    by (cases "st_nonces s (r_senderPublicKey r)") auto
  then show ?thesis
    by (simp add: build_one_nonces main_def prepare_def Let_def)
qed

text \<open>
  The input \<^verbatim>\<open>12\<close>; and an IPFS transaction while the milestone flag is off, which
  throws "Version 2 not supported." with nonce \<open>1\<close> consumed.
\<close>

theorem unknown_kind_before_nonce_witness:
  "main (sample_env\<lparr>aip11 := False\<rparr>) ''12'' initial_state = (initial_state, Failed UnknownType)
   \<and> snd (build_one (sample_env\<lparr>aip11 := False\<rparr>) (sample_run 5 [''5'']) 0 initial_state)
       = Inl Version2NotSupported
   \<and> st_nonces (fst (build_one (sample_env\<lparr>aip11 := False\<rparr>) (sample_run 5 [''5'']) 0
        initial_state)) ''pk:2.6-wallet1'' = Some 1
   \<and> st_nonces initial_state ''pk:2.6-wallet1'' = None"
proof -
  let ?e = "sample_env\<lparr>aip11 := False\<rparr>"
  let ?r = "sample_run 5 [''5'']"
  have u: "builders (input_type ?e (split_space ''12'')) = None"
    by code_simp
  have v: "snd (build_one ?e ?r 0 initial_state) = Inl Version2NotSupported"
    by code_simp
  have n: "issued_nonce ?e ?r initial_state = 1"
    by code_simp
  have pk: "r_senderPublicKey ?r = ''pk:2.6-wallet1''"
    by (simp add: sample_run_def)
  have z: "st_nonces initial_state ''pk:2.6-wallet1'' = None"
    by (simp add: initial_state_def)
  from unknown_kind_before_nonce [of ?e "''12''" initial_state ?r 0 Version2NotSupported]
    u v n z show ?thesis
    unfolding pk by simp
qed

section \<open>The verification gate\<close>

text \<open>
  Claim C3. For a draft \<open>t\<close> signed and built in lines 209-381: when multisig mode is
  off and \<open>t\<close> does not verify, the iteration throws the assertion error and so does
  the loop, whatever was already collected (nothing is queued or posted); when multisig
  mode is on, the iteration yields \<open>t\<close> whatever \<^verbatim>\<open>verify\<close> says.
\<close>

theorem verification_gate:
  assumes "snd (sign_one e r i s) = Inr t"
  shows "(\<not> cfg_multiSignature_enabled (st_config s) \<and> \<not> verify e t \<longrightarrow>
            snd (build_one e r i s) = Inl AssertionError
          \<and> snd (main_loop e r i (Suc k) s txs) = Inl AssertionError)
       \<and> (cfg_multiSignature_enabled (st_config s) \<longrightarrow> snd (build_one e r i s) = Inr t)"
proof -
  have en: "cfg_multiSignature_enabled (st_config (fst (sign_one e r i s)))
      = cfg_multiSignature_enabled (st_config s)"
    by (simp add: sign_one_state)
  have b: "snd (build_one e r i s) = gate e (st_config (fst (sign_one e r i s))) t"
    using assms by (cases "sign_one e r i s") (simp add: build_one_def)
  have "snd (main_loop e r i (Suc k) s txs) = Inl AssertionError"
    if "snd (build_one e r i s) = Inl AssertionError"
    using main_loop_abort [OF that, of k txs] by simp
  then show ?thesis
    using b en by (auto simp: gate_def)
qed

text \<open>A world where no draft verifies, with multisig mode off and on.\<close>

theorem verification_gate_witness:
  "snd (build_one (sample_env\<lparr>verify := \<lambda>t. False\<rparr>) (sample_run 0 [''0'']) 0 initial_state)
     = Inl AssertionError
   \<and> snd (main_loop (sample_env\<lparr>verify := \<lambda>t. False\<rparr>) (sample_run 0 [''0'']) 0 (Suc 0)
        initial_state []) = Inl AssertionError
   \<and> snd (build_one (sample_env\<lparr>verify := \<lambda>t. False\<rparr>) (sample_run 0 [''0'']) 0
        (initial_state\<lparr>st_config := default_config\<lparr>cfg_multiSignature_enabled := True\<rparr>\<rparr>))
     = snd (sign_one (sample_env\<lparr>verify := \<lambda>t. False\<rparr>) (sample_run 0 [''0'']) 0
        (initial_state\<lparr>st_config := default_config\<lparr>cfg_multiSignature_enabled := True\<rparr>\<rparr>))"
proof -
  let ?e = "sample_env\<lparr>verify := \<lambda>t. False\<rparr>"
  let ?r = "sample_run 0 [''0'']"
  let ?s = "initial_state\<lparr>st_config := default_config\<lparr>cfg_multiSignature_enabled := True\<rparr>\<rparr>"
  have a: "snd (sign_one ?e ?r 0 initial_state)
      = Inr (projr (snd (sign_one ?e ?r 0 initial_state)))"
    by code_simp
  have a1: "\<not> cfg_multiSignature_enabled (st_config initial_state)"
    by code_simp
  have a2: "\<not> verify ?e (projr (snd (sign_one ?e ?r 0 initial_state)))"
    by simp
  have b: "snd (sign_one ?e ?r 0 ?s) = Inr (projr (snd (sign_one ?e ?r 0 ?s)))"
    by code_simp
  have b1: "cfg_multiSignature_enabled (st_config ?s)"
    by simp
  from verification_gate [OF a, of 0 "[]"] verification_gate [OF b] a1 a2 b1 b
  show ?thesis by simp
qed



section \<open>Spending from the composite account\<close>

text \<open>
  Claim C5. With multisig mode enabled and a kind other than the multi-signature
  registration, a payload that is built has as sender public key the composite key that
  the library derives from the configured threshold and the public keys of the
  configured participants; its signing calls are exactly one \<^verbatim>\<open>multiSign\<close> per
  configured \<^verbatim>\<open>{index, passphrase}\<close>, in the order of the configuration, each at its
  index; \<^verbatim>\<open>sign\<close> and \<^verbatim>\<open>secondSign\<close> are not called.
\<close>

theorem multisig_spend:
  assumes "cfg_multiSignature_enabled (st_config s)"
    and "r_type r \<noteq> MultiSignature"
    and "snd (build_one e r i s) = Inr t"
  shows "tx_senderPublicKey t =
           publicKey_fromMultiSignatureAsset e (cfg_multiSignature_asset_min (st_config s))
             (map (publicKey_fromPassphrase e)
                (cfg_multiSignature_asset_participants (st_config s)))
       \<and> tx_signatures t =
           map (\<lambda>(index, passphrase). MultiSign passphrase index)
             (cfg_multiSignature_passphrases (st_config s))
       \<and> (\<forall>ecdsa passphrase. Sign ecdsa passphrase \<notin> set (tx_signatures t)
             \<and> SecondSign ecdsa passphrase \<notin> set (tx_signatures t))"
proof -
  let ?c = "st_config (fst (sign_one e r i s))"
  from assms(3) have "snd (sign_one e r i s) = Inr t"
    by (rule build_one_Inr)
  then obtain t2 t3 where
    p: "snd (populate e (st_config s) r i
        (if truthy (cfg_fee (st_config s))
         then (new_transaction (r_type r) (issued_nonce e r s) (r_senderPublicKey r))
                \<lparr>tx_fee := cfg_fee (st_config s)\<rparr>
         else new_transaction (r_type r) (issued_nonce e r s) (r_senderPublicKey r))) = Inr t2"
    and v: "attach_vendorField e ?c (r_type r) i t2 = Inr t3"
    and t: "t = payload_of e (sender_sign ?c r (multi_sign ?c r
              (multisig_sender e ?c (r_type r) t3)))"
    by (rule sign_one_Inr)
  from populate_keeps(3) [OF p] attach_vendorField_keeps(3) [OF v]
  have sigs: "tx_signatures t3 = []"
    by (simp add: new_transaction_def)
  have key: "tx_senderPublicKey t = fst (multiSignatureAddress e (st_config s))"
    using assms(1,2) unfolding t
    by (simp add: sender_sign_def multi_sign_def multisig_sender_def sign_one_config_other
        MultiSignature_def)
  have list: "tx_signatures t =
      map (\<lambda>(index, passphrase). MultiSign passphrase index)
        (cfg_multiSignature_passphrases (st_config s))"
    using assms(1,2) sigs unfolding t
    by (simp add: sender_sign_def multi_sign_def sign_one_config_other MultiSignature_def)
  have "\<forall>ecdsa passphrase. Sign ecdsa passphrase \<notin> set (tx_signatures t)
      \<and> SecondSign ecdsa passphrase \<notin> set (tx_signatures t)"
    unfolding list by auto
  with key list show ?thesis
    by (simp add: multiSignatureAddress_def)
qed

text \<open>A transfer with multisig mode enabled and the three passphrases as shipped.\<close>

theorem multisig_spend_witness:
  "snd (build_one sample_env (sample_run 0 [''0'']) 0
      (initial_state\<lparr>st_config := default_config\<lparr>cfg_multiSignature_enabled := True\<rparr>\<rparr>))
     = Inr (projr (snd (build_one sample_env (sample_run 0 [''0'']) 0
      (initial_state\<lparr>st_config := default_config\<lparr>cfg_multiSignature_enabled := True\<rparr>\<rparr>))))
   \<and> tx_signatures (projr (snd (build_one sample_env (sample_run 0 [''0'']) 0
      (initial_state\<lparr>st_config := default_config\<lparr>cfg_multiSignature_enabled := True\<rparr>\<rparr>))))
     = map (\<lambda>(index, passphrase). MultiSign passphrase index)
         [(0, ''multisig participant 1''), (1, ''multisig participant 2''),
          (2, ''multisig participant 3'')]"
proof -
  let ?s = "initial_state\<lparr>st_config := default_config\<lparr>cfg_multiSignature_enabled := True\<rparr>\<rparr>"
  let ?r = "sample_run 0 [''0'']"
  have a: "cfg_multiSignature_enabled (st_config ?s)"
    by simp
  have b: "r_type ?r \<noteq> MultiSignature"
    by (simp add: sample_run_def MultiSignature_def)
  have c: "snd (build_one sample_env ?r 0 ?s) = Inr (projr (snd (build_one sample_env ?r 0 ?s)))"
    by code_simp
  have d: "cfg_multiSignature_passphrases (st_config ?s) =
      [(0, ''multisig participant 1''), (1, ''multisig participant 2''),
       (2, ''multisig participant 3'')]"
    by (simp add: default_config_def)
  from multisig_spend [OF a b c] c d show ?thesis
    by simp
qed

section \<open>The vendor field\<close>



section \<open>The expiration stays in the configuration\<close>

text \<open>
  Claim C10. An HTLC lock with an EpochTimestamp expiration leaves in \<^verbatim>\<open>config\<close> the
  resolved value (the configured value, plus the network time when it was below it),
  and the payload carries that value. Any later HTLC lock iteration that starts from
  this configuration at a network time not above the stored value leaves the
  configuration as it is and carries the stored value again: the network time is not
  added a second time. The later iteration may belong to another run, in another
  outside world \<open>e'\<close>, with another nonce cache.
\<close>

theorem lock_expiration_written_back:
  assumes "r_type r = HtlcLock" and "aip11 e"
    and "cfg_htlc_lock_expiration_type (st_config s) = EpochTimestamp"
    and "s1 = fst (build_one e r i s)"
    and "r_type r' = HtlcLock" and "aip11 e'"
    and "st_config s2 = st_config s1"
    and "retrieveNetworktime e' i' \<le> cfg_htlc_lock_expiration_value (st_config s1)"
  shows "st_config s1 =
           (st_config s)\<lparr>cfg_htlc_lock_expiration_value :=
              (if cfg_htlc_lock_expiration_value (st_config s) < retrieveNetworktime e i
               then cfg_htlc_lock_expiration_value (st_config s) + retrieveNetworktime e i
               else cfg_htlc_lock_expiration_value (st_config s))\<rparr>
       \<and> (\<forall>t. snd (build_one e r i s) = Inr t \<longrightarrow>
             tx_asset t = HtlcLockAsset (cfg_htlc_lock_secretHash (st_config s1))
               EpochTimestamp (cfg_htlc_lock_expiration_value (st_config s1)))
       \<and> st_config (fst (build_one e' r' i' s2)) = st_config s1
       \<and> (\<forall>t'. snd (build_one e' r' i' s2) = Inr t' \<longrightarrow>
             tx_asset t' = HtlcLockAsset (cfg_htlc_lock_secretHash (st_config s1))
               EpochTimestamp (cfg_htlc_lock_expiration_value (st_config s1)))"
proof -
  have c1: "st_config s1 = resolve_expiration e i (st_config s)"
    using assms(1,2,4) by (simp add: build_one_config)
  have w: "st_config s1 =
      (st_config s)\<lparr>cfg_htlc_lock_expiration_value :=
         (if cfg_htlc_lock_expiration_value (st_config s) < retrieveNetworktime e i
          then cfg_htlc_lock_expiration_value (st_config s) + retrieveNetworktime e i
          else cfg_htlc_lock_expiration_value (st_config s))\<rparr>"
    unfolding c1 using assms(3) by (simp add: resolve_expiration_def Let_def)
  have first: "tx_asset t = HtlcLockAsset (cfg_htlc_lock_secretHash (st_config s1))
      EpochTimestamp (cfg_htlc_lock_expiration_value (st_config s1))"
    if "snd (build_one e r i s) = Inr t" for t
    using sign_one_asset [OF build_one_Inr [OF that] assms(1,2)] assms(3)
    by (simp add: c1)
  have fixed: "resolve_expiration e' i' (st_config s2) = st_config s2"
    using assms(7,8) by (simp add: resolve_expiration_fixed)
  have c2: "st_config (fst (build_one e' r' i' s2)) = st_config s1"
    using assms(5,6,7) fixed by (simp add: build_one_config)
  have later: "tx_asset t' = HtlcLockAsset (cfg_htlc_lock_secretHash (st_config s1))
      EpochTimestamp (cfg_htlc_lock_expiration_value (st_config s1))"
    if "snd (build_one e' r' i' s2) = Inr t'" for t'
    using sign_one_asset [OF build_one_Inr [OF that] assms(5,6)] fixed assms(3,7)
    by (simp add: c1)
  from w first c2 later show ?thesis
    by blast
qed

text \<open>
  The shipped offset \<open>416\<close> at network time \<open>1000\<close>, then a second lock at time
  \<open>1008\<close>: both expire at \<open>1416\<close>.
\<close>

theorem lock_expiration_written_back_witness:
  "cfg_htlc_lock_expiration_value
      (st_config (fst (build_one sample_env (sample_run 8 [''8'']) 0 initial_state))) = 1416
   \<and> cfg_htlc_lock_expiration_value
      (st_config (fst (build_one (sample_env\<lparr>http_status_timestamp := \<lambda>i. Some 1008\<rparr>)
         (sample_run 8 [''8'']) 0
         (fst (build_one sample_env (sample_run 8 [''8'']) 0 initial_state))))) = 1416
   \<and> tx_asset (projr (snd (build_one (sample_env\<lparr>http_status_timestamp := \<lambda>i. Some 1008\<rparr>)
         (sample_run 8 [''8'']) 0
         (fst (build_one sample_env (sample_run 8 [''8'']) 0 initial_state)))))
     = HtlcLockAsset (cfg_htlc_lock_secretHash default_config) EpochTimestamp 1416"
proof -
  let ?r = "sample_run 8 [''8'']"
  let ?e' = "sample_env\<lparr>http_status_timestamp := \<lambda>i. Some 1008\<rparr>"
  let ?s1 = "fst (build_one sample_env ?r 0 initial_state)"
  have a: "r_type ?r = HtlcLock" by (simp add: sample_run_def HtlcLock_def)
  have b: "aip11 sample_env" "aip11 ?e'" by (simp_all add: sample_env_def)
  have c: "cfg_htlc_lock_expiration_type (st_config initial_state) = EpochTimestamp"
    by (simp add: initial_state_def default_config_def EpochTimestamp_def)
  have v: "cfg_htlc_lock_expiration_value (st_config ?s1) = 1416"
    by code_simp
  have h: "cfg_htlc_lock_secretHash (st_config ?s1) = cfg_htlc_lock_secretHash default_config"
    by code_simp
  have d: "retrieveNetworktime ?e' 0 \<le> cfg_htlc_lock_expiration_value (st_config ?s1)"
    unfolding v by (simp add: retrieveNetworktime_def)
  have ok: "snd (build_one ?e' ?r 0 ?s1) = Inr (projr (snd (build_one ?e' ?r 0 ?s1)))"
    by code_simp
  from lock_expiration_written_back [OF a b(1) c refl a b(2) refl d] ok v h
  show ?thesis
    by metis
qed

section \<open>The entity asset\<close>



section \<open>The synthesized payments\<close>

text \<open>
  Claim C8 at the top of the range of \<^verbatim>\<open>Math.random()\<close>. The value
  \<^verbatim>\<open>1 - 2^-52\<close> is a double in \<open>[0, 1)\<close>. Its product with \<open>65\<close> rounds to
  \<^verbatim>\<open>65 - 2^-46\<close>, and adding \<open>64\<close> gives a tie that rounds to \<open>129\<close>: with the
  payment list empty as shipped, lines 270-277 then synthesize \<open>129\<close> payments, one
  more than the comment of line 121 and the claim allow. With the library's limit of
  \<open>128\<close> payments the last \<^verbatim>\<open>addPayment\<close> throws and the input \<^verbatim>\<open>6\<close> ends with that
  error. (For every \<open>r\<close> in \<open>[0, 1)\<close> a payload that is built has between \<open>64\<close> and
  \<open>129\<close> payments, each of amount \<^verbatim>\<open>"1"\<close>, to the fixtures in rotation:
  \<open>multipayment_synthesized\<close>.)
\<close>

theorem synthesized_payments_129:
  "0 \<le> (1 - 1 / 2 ^ 52 :: rat) \<and> (1 - 1 / 2 ^ 52 :: rat) < 1 \<and> is_double (1 - 1 / 2 ^ 52)
   \<and> payment_count (1 - 1 / 2 ^ 52) = 129
   \<and> length (payments_of (sample_env\<lparr>random_count := \<lambda>i. 1 - 1 / 2 ^ 52\<rparr>)
        default_config 0) = 129
   \<and> snd (main (sample_env\<lparr>random_count := \<lambda>i. 1 - 1 / 2 ^ 52\<rparr>) ''6'' initial_state)
       = Failed MaximumPaymentCountExceeded"
  by code_simp

end
